theory Spec2Isabelle
  imports Main
begin

section \<open>Python values\<close>

text \<open>
  A Python \<open>str\<close> is a sequence of Unicode code points, and the program's literals are
  mostly Cyrillic, so a string is a list of code points. \<open>ascii\<close> embeds an ASCII
  literal.
\<close>

type_synonym ustr = "nat list"

definition ascii :: "string \<Rightarrow> ustr" where
  "ascii s = map of_char s"

text \<open>
  What \<open>response.json()\<close> can return: the values of Python's \<open>json\<close> module. A JSON
  object is kept as an association list read from the left (\<open>map_of\<close>). A float is
  \<open>m * 2 ^ e\<close>, an infinity or a NaN (the decoder accepts all three).
\<close>

datatype pyfloat = Finite int int | PosInf | NegInf | NaN

datatype json =
    JNull
  | JBool bool
  | JInt int
  | JFloat pyfloat
  | JStr ustr
  | JList "json list"
  | JDict "(ustr \<times> json) list"

text \<open>Truth value of an object, as \<open>or\<close>, \<open>not\<close> and \<open>all\<close> test it.\<close>

fun truthy :: "json \<Rightarrow> bool" where
  "truthy JNull = False"
| "truthy (JBool b) = b"
| "truthy (JInt i) = (i \<noteq> 0)"
| "truthy (JFloat (Finite m e)) = (m \<noteq> 0)"
| "truthy (JFloat f) = True"
| "truthy (JStr s) = (s \<noteq> [])"
| "truthy (JList xs) = (xs \<noteq> [])"
| "truthy (JDict d) = (d \<noteq> [])"

text \<open>An environment variable as \<open>os.getenv\<close> returns it: \<open>None\<close> or a string.\<close>

definition truthy_env :: "ustr option \<Rightarrow> bool" where
  "truthy_env v = (case v of None \<Rightarrow> False | Some s \<Rightarrow> s \<noteq> [])"

fun type_name :: "json \<Rightarrow> string" where
  "type_name JNull = ''NoneType''"
| "type_name (JBool b) = ''bool''"
| "type_name (JInt i) = ''int''"
| "type_name (JFloat f) = ''float''"
| "type_name (JStr s) = ''str''"
| "type_name (JList xs) = ''list''"
| "type_name (JDict d) = ''dict''"

definition quoted :: "ustr \<Rightarrow> ustr" where
  \<comment> \<open>between two apostrophes (code point 39)\<close>
  "quoted s = [39] @ s @ [39]"

definition type_repr :: "json \<Rightarrow> ustr" where
  \<comment> \<open>\<open>str(type(v))\<close>\<close>
  "type_repr v = ascii ''<class '' @ quoted (ascii (type_name v)) @ ascii ''>''"

fun hashable :: "json \<Rightarrow> bool" where
  "hashable (JList xs) = False"
| "hashable (JDict d) = False"
| "hashable v = True"

text \<open>Decimal digits of an integer, as \<open>str\<close> prints it.\<close>

fun str_nat :: "nat \<Rightarrow> ustr" where
  "str_nat n = (if n < 10 then [48 + n] else str_nat (n div 10) @ [48 + n mod 10])"

declare str_nat.simps [simp del]

definition str_int :: "int \<Rightarrow> ustr" where
  "str_int i = (if i < 0 then 45 # str_nat (nat (- i)) else str_nat (nat i))"

text \<open>
  Substring test of \<open>a in b\<close> on strings: \<open>py_in a b\<close>.
\<close>

fun starts_with :: "'a list \<Rightarrow> 'a list \<Rightarrow> bool" where
  "starts_with ys [] = True"
| "starts_with [] (x # xs) = False"
| "starts_with (y # ys) (x # xs) = (x = y \<and> starts_with ys xs)"

fun py_in :: "'a list \<Rightarrow> 'a list \<Rightarrow> bool" where
  "py_in xs [] = (xs = [])"
| "py_in xs (y # ys) = (starts_with (y # ys) xs \<or> py_in xs ys)"

section \<open>Exceptions\<close>

text \<open>
  The classes the program raises or meets. \<open>WrongResponseCode\<close> and
  \<open>EmptyResponseFromAPI\<close> come from the repository's module \<open>exceptions\<close>;
  \<open>RequestException\<close> stands for the \<open>requests\<close> library's family and
  \<open>InvalidToken\<close> for the error the \<open>telegram\<close> library raises on a malformed token;
  the others are built in. An exception carries its message and, when it was raised with
  a second argument (line 71), that argument.
\<close>

datatype exn_class =
    WrongResponseCode
  | EmptyResponseFromAPI
  | TypeError
  | KeyError
  | ValueError
  | AttributeError
  | RequestException
  | InvalidToken

datatype exn = Exn (cls: exn_class) (msg: ustr) (second_arg: "exn option")

text \<open>
  What the model does not compute of the Python runtime: \<open>repr\<close> of a float, a list or
  a dict (and of a string, inside them), and \<open>str\<close> of an exception that has two
  arguments.
\<close>

record pyrt =
  repr :: "json \<Rightarrow> ustr"
  str_args :: "exn \<Rightarrow> ustr"

fun str_json :: "pyrt \<Rightarrow> json \<Rightarrow> ustr" where
  "str_json rt (JStr s) = s"
| "str_json rt JNull = ascii ''None''"
| "str_json rt (JBool b) = (if b then ascii ''True'' else ascii ''False'')"
| "str_json rt (JInt i) = str_int i"
| "str_json rt v = repr rt v"

definition str_env :: "ustr option \<Rightarrow> ustr" where
  "str_env v = (case v of None \<Rightarrow> ascii ''None'' | Some s \<Rightarrow> s)"

fun str_exn :: "pyrt \<Rightarrow> exn \<Rightarrow> ustr" where
  "str_exn rt (Exn c m None) = (if c = KeyError then repr rt (JStr m) else m)"
| "str_exn rt (Exn c m (Some e)) = str_args rt (Exn c m (Some e))"

text \<open>
  The module \<open>exceptions\<close> is not part of the sources, so which of its classes derive
  from \<open>NotForSend\<close> or its \<open>TelegramError\<close> (line 147) is a parameter \<open>nfs\<close>; a
  built-in or library class derives from neither. The module's classes are taken to
  derive from \<open>Exception\<close> and not from \<open>RequestException\<close>.
\<close>

definition not_for_send :: "(exn_class \<Rightarrow> bool) \<Rightarrow> exn \<Rightarrow> bool" where
  "not_for_send nfs e =
     ((cls e = WrongResponseCode \<or> cls e = EmptyResponseFromAPI) \<and> nfs (cls e))"

section \<open>Constants and literals\<close>

definition RETRY_PERIOD :: int where
  "RETRY_PERIOD = 600"

definition ENDPOINT :: ustr where
  "ENDPOINT = ascii ''https://practicum.yandex.ru/api/user_api/homework_statuses/''"

record config =
  PRACTICUM_TOKEN :: "ustr option"
  TELEGRAM_TOKEN :: "ustr option"
  TELEGRAM_CHAT_ID :: "ustr option"

definition HEADERS :: "config \<Rightarrow> (ustr \<times> ustr) list" where
  "HEADERS cfg = [(ascii ''Authorization'', ascii ''OAuth '' @ str_env (PRACTICUM_TOKEN cfg))]"

definition txt_send_begin :: ustr where
  \<comment> \<open>line 36, in English: start of sending the status to telegram\<close>
  "txt_send_begin =
    [1053, 1072, 1095, 1072, 1083, 1086, 32, 1086, 1090, 1087, 1088, 1072, 1074, 1082,
     1080, 32, 1089, 1090, 1072, 1090, 1091, 1089, 1072, 32, 1074, 32, 116, 101, 108,
     101, 103, 114, 97, 109]"

definition txt_send_debug :: ustr where
  \<comment> \<open>line 38, in English: message successfully sent to telegram\<close>
  "txt_send_debug =
    [1057, 1086, 1086, 1073, 1097, 1077, 1085, 1080, 1077, 32, 1091, 1089, 1087, 1077,
     1096, 1085, 1086, 32, 1086, 1090, 1087, 1088, 1072, 1074, 1083, 1077, 1085, 1086,
     32, 1074, 32, 116, 101, 108, 101, 103, 114, 97, 109]"

definition txt_send_failed :: ustr where
  \<comment> \<open>line 40, in English: error sending the status to telegram: \<close>
  "txt_send_failed =
    [1054, 1096, 1080, 1073, 1082, 1072, 32, 1086, 1090, 1087, 1088, 1072, 1074, 1082,
     1080, 32, 1089, 1090, 1072, 1090, 1091, 1089, 1072, 32, 1074, 32, 116, 101, 108,
     101, 103, 114, 97, 109, 58, 32]"

definition txt_send_done :: ustr where
  \<comment> \<open>line 42, in English: status sent to telegram\<close>
  "txt_send_done =
    [1057, 1090, 1072, 1090, 1091, 1089, 32, 1086, 1090, 1087, 1088, 1072, 1074, 1083,
     1077, 1085, 32, 1074, 32, 116, 101, 108, 101, 103, 114, 97, 109]"

definition verdict_approved :: ustr where
  \<comment> \<open>line 27, in English: work checked: the reviewer liked everything. Hooray!\<close>
  "verdict_approved =
    [1056, 1072, 1073, 1086, 1090, 1072, 32, 1087, 1088, 1086, 1074, 1077, 1088, 1077,
     1085, 1072, 58, 32, 1088, 1077, 1074, 1100, 1102, 1077, 1088, 1091, 32, 1074, 1089,
     1105, 32, 1087, 1086, 1085, 1088, 1072, 1074, 1080, 1083, 1086, 1089, 1100, 46, 32,
     1059, 1088, 1072, 33]"

definition verdict_reviewing :: ustr where
  \<comment> \<open>line 28, in English: work taken for checking by the reviewer.\<close>
  "verdict_reviewing =
    [1056, 1072, 1073, 1086, 1090, 1072, 32, 1074, 1079, 1103, 1090, 1072, 32, 1085,
     1072, 32, 1087, 1088, 1086, 1074, 1077, 1088, 1082, 1091, 32, 1088, 1077, 1074,
     1100, 1102, 1077, 1088, 1086, 1084, 46]"

definition verdict_rejected :: ustr where
  \<comment> \<open>line 29, in English: work checked: the reviewer has remarks.\<close>
  "verdict_rejected =
    [1056, 1072, 1073, 1086, 1090, 1072, 32, 1087, 1088, 1086, 1074, 1077, 1088, 1077,
     1085, 1072, 58, 32, 1091, 32, 1088, 1077, 1074, 1100, 1102, 1077, 1088, 1072, 32,
     1077, 1089, 1090, 1100, 32, 1079, 1072, 1084, 1077, 1095, 1072, 1085, 1080, 1103,
     46]"

definition txt_request_begin :: ustr where
  \<comment> \<open>line 55, in English: start of the API request. Request: \<close>
  "txt_request_begin =
    [1053, 1072, 1095, 1072, 1083, 1086, 32, 1079, 1072, 1087, 1088, 1086, 1089, 1072,
     32, 1082, 32, 65, 80, 73, 46, 32, 1047, 1072, 1087, 1088, 1086, 1089, 58, 32]"

definition txt_answer_not_200 :: ustr where
  \<comment> \<open>line 62, in English: the API answer does not return 200. \<close>
  "txt_answer_not_200 =
    [1054, 1090, 1074, 1077, 1090, 32, 65, 80, 73, 32, 1085, 1077, 32, 1074, 1086, 1079,
     1074, 1088, 1072, 1097, 1072, 1077, 1090, 32, 50, 48, 48, 46, 32]"

definition txt_code :: ustr where
  \<comment> \<open>line 63, in English: answer code: \<close>
  "txt_code =
    [1050, 1086, 1076, 32, 1086, 1090, 1074, 1077, 1090, 1072, 58, 32]"

definition txt_reason :: ustr where
  \<comment> \<open>line 64, in English: reason: \<close>
  "txt_reason =
    [1055, 1088, 1080, 1095, 1080, 1085, 1072, 58, 32]"

definition txt_text :: ustr where
  \<comment> \<open>line 65, in English: text: \<close>
  "txt_text =
    [1058, 1077, 1082, 1089, 1090, 58, 32]"

definition txt_api_not_200 :: ustr where
  \<comment> \<open>line 69, in English: the API does not return 200. Request: \<close>
  "txt_api_not_200 =
    [65, 80, 73, 32, 1085, 1077, 32, 1074, 1086, 1079, 1074, 1088, 1072, 1097, 1072,
     1077, 1090, 32, 50, 48, 48, 46, 32, 1047, 1072, 1087, 1088, 1086, 1089, 58, 32]"

definition txt_check_begin :: ustr where
  \<comment> \<open>line 76, in English: checking the API answer for correctness\<close>
  "txt_check_begin =
    [1055, 1088, 1086, 1074, 1077, 1088, 1082, 1072, 32, 1086, 1090, 1074, 1077, 1090,
     1072, 32, 65, 80, 73, 32, 1085, 1072, 32, 1082, 1086, 1088, 1088, 1077, 1082, 1090,
     1085, 1086, 1089, 1090, 1100]"

definition txt_expected_dict :: ustr where
  \<comment> \<open>line 79, in English: expected an API answer in dict format, got \<close>
  "txt_expected_dict =
    [1054, 1078, 1080, 1076, 1072, 1083, 1089, 1103, 32, 1086, 1090, 1074, 1077, 1090,
     32, 65, 80, 73, 32, 1074, 32, 1092, 1086, 1088, 1084, 1072, 1090, 1077, 32, 100,
     105, 99, 116, 44, 32, 1087, 1086, 1083, 1091, 1095, 1077, 1085, 32]"

definition txt_no_homeworks_key :: ustr where
  \<comment> \<open>line 82, in English: no key homeworks in the API answer\<close>
  "txt_no_homeworks_key =
    [1053, 1077, 1090, 32, 1082, 1083, 1102, 1095, 1072, 32, 104, 111, 109, 101, 119,
     111, 114, 107, 115, 32, 1074, 32, 1086, 1090, 1074, 1077, 1090, 1077, 32, 65, 80,
     73]"

definition txt_expected_list :: ustr where
  \<comment> \<open>line 86, in English: expected a list under the key ''homeworks'', got \<close>
  "txt_expected_list =
    [1054, 1078, 1080, 1076, 1072, 1083, 1089, 1103, 32, 1089, 1087, 1080, 1089, 1086,
     1082, 32, 40, 108, 105, 115, 116, 41, 32, 1074, 32, 1082, 1083, 1102, 1095, 1077,
     32, 34, 104, 111, 109, 101, 119, 111, 114, 107, 115, 34, 44, 32, 1087, 1086, 1083,
     1091, 1095, 1077, 1085, 32]"

definition txt_parse_begin :: ustr where
  \<comment> \<open>line 94, in English: running the checks and extracting the status of the work\<close>
  "txt_parse_begin =
    [1055, 1088, 1086, 1074, 1086, 1076, 1080, 1084, 32, 1087, 1088, 1086, 1074, 1077,
     1088, 1082, 1080, 32, 1080, 32, 1080, 1079, 1074, 1083, 1077, 1082, 1072, 1077,
     1084, 32, 1089, 1090, 1072, 1090, 1091, 1089, 32, 1088, 1072, 1073, 1086, 1090,
     1099]"

definition txt_no_homework_name :: ustr where
  \<comment> \<open>line 96, in English: no key homework_name in the API answer\<close>
  "txt_no_homework_name =
    [1053, 1077, 1090, 32, 1082, 1083, 1102, 1095, 1072, 32, 104, 111, 109, 101, 119,
     111, 114, 107, 95, 110, 97, 109, 101, 32, 1074, 32, 1086, 1090, 1074, 1077, 1090,
     1077, 32, 65, 80, 73]"

definition txt_unknown_status :: ustr where
  \<comment> \<open>line 100, in English: unknown status of the work - \<close>
  "txt_unknown_status =
    [1053, 1077, 1080, 1079, 1074, 1077, 1089, 1090, 1085, 1099, 1081, 32, 1089, 1090,
     1072, 1090, 1091, 1089, 32, 1088, 1072, 1073, 1086, 1090, 1099, 32, 45, 32]"

definition txt_status_changed :: ustr where
  \<comment> \<open>line 101, in English: the checking status of the work changed: '' (up to and including the opening quote)\<close>
  "txt_status_changed =
    [1048, 1079, 1084, 1077, 1085, 1080, 1083, 1089, 1103, 32, 1089, 1090, 1072, 1090,
     1091, 1089, 32, 1087, 1088, 1086, 1074, 1077, 1088, 1082, 1080, 32, 1088, 1072,
     1073, 1086, 1090, 1099, 32, 34]"

definition txt_tokens_begin :: ustr where
  \<comment> \<open>line 111, in English: checking that all tokens are there\<close>
  "txt_tokens_begin =
    [1055, 1088, 1086, 1074, 1077, 1088, 1082, 1072, 32, 1085, 1072, 1083, 1080, 1095,
     1080, 1103, 32, 1074, 1089, 1077, 1093, 32, 1090, 1086, 1082, 1077, 1085, 1086,
     1074]"

definition txt_token_missing :: ustr where
  \<comment> \<open>line 113, in English: one of the tokens is missing\<close>
  "txt_token_missing =
    [1054, 1090, 1089, 1091, 1090, 1089, 1090, 1074, 1091, 1077, 1090, 32, 1086, 1076,
     1080, 1085, 32, 1080, 1079, 32, 1090, 1086, 1082, 1077, 1085, 1086, 1074]"

definition txt_token_stopped :: ustr where
  \<comment> \<open>line 121, in English: a token is missing. Bot stopped!\<close>
  "txt_token_stopped =
    [1054, 1090, 1089, 1091, 1090, 1089, 1090, 1074, 1091, 1077, 1090, 32, 1090, 1086,
     1082, 1077, 1085, 46, 32, 1041, 1086, 1090, 32, 1086, 1089, 1090, 1072, 1085, 1086,
     1074, 1083, 1077, 1085, 33]"

definition start_message :: ustr where
  \<comment> \<open>line 124, in English: the bot started working\<close>
  "start_message =
    [1041, 1086, 1090, 32, 1085, 1072, 1095, 1072, 1083, 32, 1088, 1072, 1073, 1086,
     1090, 1091]"

definition txt_no_new_statuses :: ustr where
  \<comment> \<open>line 137, in English: no new statuses\<close>
  "txt_no_new_statuses =
    [1053, 1077, 1090, 32, 1085, 1086, 1074, 1099, 1093, 32, 1089, 1090, 1072, 1090,
     1091, 1089, 1086, 1074]"

definition txt_failure :: ustr where
  \<comment> \<open>line 148, in English: failure in the program's work: \<close>
  "txt_failure =
    [1057, 1073, 1086, 1081, 32, 1074, 32, 1088, 1072, 1073, 1086, 1090, 1077, 32, 1087,
     1088, 1086, 1075, 1088, 1072, 1084, 1084, 1099, 58, 32]"

definition txt_critical :: ustr where
  \<comment> \<open>line 166, in English: a critical error happened: \<close>
  "txt_critical =
    [1055, 1088, 1086, 1080, 1079, 1086, 1096, 1083, 1072, 32, 1082, 1088, 1080, 1090,
     1080, 1095, 1077, 1089, 1082, 1072, 1103, 32, 1086, 1096, 1080, 1073, 1082, 1072,
     58, 32]"

definition HOMEWORK_VERDICTS :: "(ustr \<times> ustr) list" where
  "HOMEWORK_VERDICTS =
     [(ascii ''approved'', verdict_approved),
      (ascii ''reviewing'', verdict_reviewing),
      (ascii ''rejected'', verdict_rejected)]"

section \<open>The outside world\<close>

record request =
  url :: ustr
  headers :: "(ustr \<times> ustr) list"
  params :: "(ustr \<times> json) list"

record response =
  status_code :: int
  reason :: ustr
  text_body :: ustr
  json_body :: "exn + json"

text \<open>\<open>requests.get\<close> raises or returns a response.\<close>

datatype http_result = Raised exn | Response response

datatype level = DEBUG | INFO | ERROR | CRITICAL

text \<open>
  What the program does to the world, in order: a call of a \<open>logging\<close> function, the
  GET request, \<open>bot.send_message\<close> with its chat and text, \<open>time.sleep\<close>.
\<close>

datatype event =
    Log level ustr
  | Get request
  | Send "ustr option" ustr
  | Sleep int

text \<open>
  What one pass of the loop reads from the world: the clock at line 49 and at line 132,
  the outcome of the GET, and the outcome of \<open>bot.send_message\<close> (\<open>None\<close>: delivered;
  \<open>Some t\<close>: the library's \<open>TelegramError\<close> whose text is \<open>t\<close>). A pass sends at
  most once.
\<close>

record poll =
  clock_request :: int
  answer :: http_result
  clock_cursor :: int
  delivery :: "ustr option"

text \<open>
  What startup reads: whether \<open>telegram.Bot(token=...)\<close> raises, and the outcome of
  sending the start message.
\<close>

record startup =
  bot_init :: "exn option"
  start_delivery :: "ustr option"

record state =
  current_timestamp :: json
  prev_msg :: ustr

section \<open>The functions of homework.py\<close>

definition send_message :: "config \<Rightarrow> ustr option \<Rightarrow> ustr \<Rightarrow> event list" where
  "send_message cfg outcome message =
     [Log INFO txt_send_begin, Send (TELEGRAM_CHAT_ID cfg) message] @
     (case outcome of
        Some error \<Rightarrow> [Log ERROR (txt_send_failed @ error)]
      | None \<Rightarrow> [Log DEBUG txt_send_debug, Log INFO txt_send_done])"

text \<open>Lines 49 to 54 of \<open>get_api_answer\<close>: the request.\<close>

definition params_request :: "config \<Rightarrow> int \<Rightarrow> json \<Rightarrow> request" where
  "params_request cfg now current_ts =
     (let timestamp = (if truthy current_ts then current_ts else JInt now)
      in \<lparr>url = ENDPOINT, headers = HEADERS cfg,
          params = [(ascii ''from_date'', timestamp)]\<rparr>)"

definition format_request :: "pyrt \<Rightarrow> ustr \<Rightarrow> request \<Rightarrow> ustr" where
  \<comment> \<open>\<open>'<head>{url}, {headers}, {params}.'.format(**params_request)\<close>\<close>
  "format_request rt head req =
     head @ url req @ ascii '', '' @
     repr rt (JDict (map (\<lambda>(k, v). (k, JStr v)) (headers req))) @ ascii '', '' @
     repr rt (JDict (params req)) @ ascii ''.''"

definition wrong_code_message :: "response \<Rightarrow> ustr" where
  \<comment> \<open>lines 62 to 65\<close>
  "wrong_code_message r =
     txt_answer_not_200 @
     txt_code @ str_int (status_code r) @ ascii ''. '' @
     txt_reason @ reason r @ ascii ''. '' @
     txt_text @ text_body r @ ascii ''.''"

definition get_api_answer ::
  "pyrt \<Rightarrow> config \<Rightarrow> int \<Rightarrow> http_result \<Rightarrow> json \<Rightarrow> event list \<times> (exn + json)" where
  "get_api_answer rt cfg now got current_ts =
     (let req = params_request cfg now current_ts;
          tried =
            (case got of
               Raised e \<Rightarrow> Inl e
             | Response r \<Rightarrow>
                 if status_code r \<noteq> 200
                 then Inl (Exn WrongResponseCode (wrong_code_message r) None)
                 else json_body r)
      in ([Log INFO (format_request rt txt_request_begin req), Get req],
          case tried of
            Inl e \<Rightarrow>
              if cls e = RequestException
              then Inl (Exn WrongResponseCode (format_request rt txt_api_not_200 req) (Some e))
              else Inl e
          | Inr v \<Rightarrow> Inr v))"

definition check_response :: "json \<Rightarrow> event list \<times> (exn + json list)" where
  "check_response response =
     ([Log INFO txt_check_begin],
      case response of
        JDict d \<Rightarrow>
          if map_of d (ascii ''homeworks'') = None \<or> map_of d (ascii ''current_date'') = None
          then Inl (Exn EmptyResponseFromAPI txt_no_homeworks_key None)
          else (case map_of d (ascii ''homeworks'') of
                  Some (JList homeworks) \<Rightarrow> Inr homeworks
                | Some v \<Rightarrow> Inl (Exn TypeError (txt_expected_list @ type_repr v) None)
                | None \<Rightarrow> Inl (Exn TypeError (txt_expected_list @ type_repr JNull) None))
      | v \<Rightarrow> Inl (Exn TypeError (txt_expected_dict @ type_repr v) None))"

text \<open>
  \<open>'homework_name' not in homework\<close> (line 95) on whatever the first element of the
  list is: a key test on a dict, a substring test on a string, an element test on a list,
  and a \<open>TypeError\<close> on anything else. \<open>homework.get\<close> (line 97) exists on a dict only.
\<close>

definition no_attribute_get :: "json \<Rightarrow> exn" where
  "no_attribute_get v =
     Exn AttributeError
       (quoted (ascii (type_name v)) @ ascii '' object has no attribute '' @ quoted (ascii ''get''))
       None"

definition parse_status :: "pyrt \<Rightarrow> json \<Rightarrow> event list \<times> (exn + ustr)" where
  "parse_status rt homework =
     ([Log INFO txt_parse_begin],
      case homework of
        JDict d \<Rightarrow>
          if map_of d (ascii ''homework_name'') = None
          then Inl (Exn KeyError txt_no_homework_name None)
          else
            let homework_name = (case map_of d (ascii ''homework_name'') of
                                   Some v \<Rightarrow> v | None \<Rightarrow> JNull);
                homework_status = (case map_of d (ascii ''status'') of
                                     Some v \<Rightarrow> v | None \<Rightarrow> JNull)
            in if \<not> hashable homework_status
               then Inl (Exn TypeError
                      (ascii ''unhashable type: '' @ quoted (ascii (type_name homework_status)))
                      None)
               else (case (case homework_status of
                             JStr k \<Rightarrow> map_of HOMEWORK_VERDICTS k | _ \<Rightarrow> None) of
                       None \<Rightarrow>
                         Inl (Exn ValueError
                                (txt_unknown_status @ str_json rt homework_status) None)
                     | Some verdict \<Rightarrow>
                         Inr (txt_status_changed @ str_json rt homework_name @
                              [34] @ ascii ''. '' @ verdict))
      | JStr s \<Rightarrow>
          if \<not> py_in (ascii ''homework_name'') s
          then Inl (Exn KeyError txt_no_homework_name None)
          else Inl (no_attribute_get homework)
      | JList xs \<Rightarrow>
          if JStr (ascii ''homework_name'') \<notin> set xs
          then Inl (Exn KeyError txt_no_homework_name None)
          else Inl (no_attribute_get homework)
      | v \<Rightarrow>
          Inl (Exn TypeError
                 (ascii ''argument of type '' @ quoted (ascii (type_name v)) @
                  ascii '' is not iterable'')
                 None))"

definition check_tokens :: "config \<Rightarrow> event list \<times> (exn + bool)" where
  "check_tokens cfg =
     ([Log INFO txt_tokens_begin],
      if \<not> (truthy_env (PRACTICUM_TOKEN cfg) \<and> truthy_env (TELEGRAM_TOKEN cfg) \<and>
             truthy_env (TELEGRAM_CHAT_ID cfg))
      then Inl (Exn ValueError txt_token_missing None)
      else Inr True)"

text \<open>\<open>response.get('current_date', default)\<close> of line 131: only a dict has \<open>get\<close>.\<close>

definition get_current_date :: "json \<Rightarrow> json \<Rightarrow> exn + json" where
  "get_current_date response dflt =
     (case response of
        JDict d \<Rightarrow> Inr (case map_of d (ascii ''current_date'') of Some v \<Rightarrow> v | None \<Rightarrow> dflt)
      | v \<Rightarrow> Inl (no_attribute_get v))"

text \<open>
  Lines 130 to 139 of \<open>main\<close>: the state when control leaves them, what happened, and
  the message or the exception raised.
\<close>

definition poll_message ::
  "pyrt \<Rightarrow> config \<Rightarrow> poll \<Rightarrow> state \<Rightarrow> state \<times> event list \<times> (exn + ustr)" where
  "poll_message rt cfg p s =
     (case get_api_answer rt cfg (clock_request p) (answer p) (current_timestamp s) of
        (ev1, Inl e) \<Rightarrow> (s, ev1, Inl e)
      | (ev1, Inr response) \<Rightarrow>
          (case get_current_date response (JInt (clock_cursor p)) of
             Inl e \<Rightarrow> (s, ev1, Inl e)
           | Inr date \<Rightarrow>
               (let s1 = s\<lparr>current_timestamp := date\<rparr> in
                case check_response response of
                  (ev2, Inl e) \<Rightarrow> (s1, ev1 @ ev2, Inl e)
                | (ev2, Inr homeworks) \<Rightarrow>
                    (case homeworks of
                       [] \<Rightarrow> (s1, ev1 @ ev2, Inr txt_no_new_statuses)
                     | homework # rest \<Rightarrow>
                         (case parse_status rt homework of
                            (ev3, r) \<Rightarrow> (s1, ev1 @ ev2 @ ev3, r))))))"

text \<open>Lines 141 to 145: send the message unless the previous one contains it.\<close>

definition notify :: "config \<Rightarrow> poll \<Rightarrow> ustr \<Rightarrow> state \<Rightarrow> state \<times> event list" where
  "notify cfg p message s =
     (if message \<noteq> prev_msg s \<and> \<not> py_in message (prev_msg s)
      then (s\<lparr>prev_msg := message\<rparr>, send_message cfg (delivery p) message)
      else (s, [Log INFO message]))"

text \<open>
  One pass of the \<open>while True\<close> loop, lines 129 to 164, with its two handlers and the
  \<open>finally\<close>. \<open>send_message\<close> catches the library's error itself, so the inner
  \<open>try\<close> of lines 155 to 161 never reaches its handler.
\<close>

definition iteration ::
  "pyrt \<Rightarrow> config \<Rightarrow> (exn_class \<Rightarrow> bool) \<Rightarrow> poll \<Rightarrow> state \<Rightarrow> state \<times> event list" where
  "iteration rt cfg nfs p s =
     (case poll_message rt cfg p s of
        (s1, evs, Inr message) \<Rightarrow>
          (case notify cfg p message s1 of
             (s2, sent) \<Rightarrow> (s2, evs @ sent @ [Sleep RETRY_PERIOD]))
      | (s1, evs, Inl error) \<Rightarrow>
          (let message = txt_failure @ str_exn rt error in
           if not_for_send nfs error
           then (s1, evs @ [Log ERROR message] @ [Sleep RETRY_PERIOD])
           else (s1\<lparr>prev_msg := message\<rparr>,
                 evs @ [Log ERROR message] @
                 (if \<not> py_in message (prev_msg s1)
                  then send_message cfg (delivery p) message else []) @
                 [Sleep RETRY_PERIOD])))"

text \<open>The loop over the passes the world has answered so far.\<close>

fun loop ::
  "pyrt \<Rightarrow> config \<Rightarrow> (exn_class \<Rightarrow> bool) \<Rightarrow> poll list \<Rightarrow> state \<Rightarrow> state \<times> event list" where
  "loop rt cfg nfs [] s = (s, [])"
| "loop rt cfg nfs (p # ps) s =
     (case iteration rt cfg nfs p s of
        (s1, evs) \<Rightarrow>
          (case loop rt cfg nfs ps s1 of
             (s2, later) \<Rightarrow> (s2, evs @ later)))"

text \<open>
  \<open>main\<close>: \<open>Stopped\<close> when it has returned (after the critical log of line 166),
  \<open>Polling\<close> when it is still in the loop after the given passes, with the loop's state.
\<close>

datatype outcome = Stopped "event list" | Polling state "event list"

definition critical :: "pyrt \<Rightarrow> exn \<Rightarrow> event" where
  "critical rt main_error = Log CRITICAL (txt_critical @ str_exn rt main_error)"

definition main ::
  "pyrt \<Rightarrow> config \<Rightarrow> (exn_class \<Rightarrow> bool) \<Rightarrow> startup \<Rightarrow> poll list \<Rightarrow> outcome" where
  "main rt cfg nfs su ps =
     (case check_tokens cfg of
        (ev0, Inl e) \<Rightarrow> Stopped (ev0 @ [critical rt e])
      | (ev0, Inr ok) \<Rightarrow>
          if \<not> ok then Stopped (ev0 @ [critical rt (Exn ValueError txt_token_stopped None)])
          else (case bot_init su of
                  Some e \<Rightarrow> Stopped (ev0 @ [critical rt e])
                | None \<Rightarrow>
                    (let ev1 = send_message cfg (start_delivery su) start_message @
                               [Log INFO start_message]
                     in case loop rt cfg nfs ps \<lparr>current_timestamp = JInt 0, prev_msg = []\<rparr> of
                          (s, evs) \<Rightarrow> Polling s (ev0 @ ev1 @ evs))))"

text \<open>What was sent to the chat, what was requested.\<close>

fun sent_texts :: "event list \<Rightarrow> ustr list" where
  "sent_texts [] = []"
| "sent_texts (Send chat t # evs) = t # sent_texts evs"
| "sent_texts (ev # evs) = sent_texts evs"

fun requests_made :: "event list \<Rightarrow> request list" where
  "requests_made [] = []"
| "requests_made (Get r # evs) = r # requests_made evs"
| "requests_made (ev # evs) = requests_made evs"

section \<open>Sample inputs\<close>

text \<open>
  Concrete values the laws below are run on: a runtime, the three credentials, a class
  hierarchy in which only \<open>EmptyResponseFromAPI\<close> is not for sending, a startup that
  succeeds, and a pass whose GET is answered with a given status and body.
\<close>

definition rt_ex :: pyrt where
  "rt_ex = \<lparr>repr = (\<lambda>v. ascii ''<repr>''), str_args = (\<lambda>e. ascii ''<args>'')\<rparr>"

definition cfg_ex :: config where
  "cfg_ex = \<lparr>PRACTICUM_TOKEN = Some (ascii ''y0_token''),
            TELEGRAM_TOKEN = Some (ascii ''123456:bot''),
            TELEGRAM_CHAT_ID = Some (ascii ''4242'')\<rparr>"

definition nfs_ex :: "exn_class \<Rightarrow> bool" where
  "nfs_ex c = (c = EmptyResponseFromAPI)"

definition su_ex :: startup where
  "su_ex = \<lparr>bot_init = None, start_delivery = None\<rparr>"

definition state_ex :: "int \<Rightarrow> ustr \<Rightarrow> state" where
  "state_ex date prev = \<lparr>current_timestamp = JInt date, prev_msg = prev\<rparr>"

definition homework_ex :: "string \<Rightarrow> json" where
  "homework_ex st =
     JDict [(ascii ''homework_name'', JStr (ascii ''hw1'')), (ascii ''status'', JStr (ascii st))]"

definition body_ex :: "json list \<Rightarrow> int \<Rightarrow> json" where
  "body_ex hws date = JDict [(ascii ''homeworks'', JList hws), (ascii ''current_date'', JInt date)]"

definition poll_ex :: "int \<Rightarrow> ustr \<Rightarrow> json \<Rightarrow> poll" where
  "poll_ex code why body =
     \<lparr>clock_request = 1700000000,
      answer = Response \<lparr>status_code = code, reason = why, text_body = [], json_body = Inr body\<rparr>,
      clock_cursor = 1700000001, delivery = None\<rparr>"

definition message_ex :: ustr where
  "message_ex = txt_status_changed @ ascii ''hw1'' @ [34] @ ascii ''. '' @ verdict_approved"

section \<open>Strings and events\<close>

text \<open>\<open>py_in\<close> is the substring relation.\<close>

lemma starts_with_iff: "starts_with ys xs \<longleftrightarrow> (\<exists>vs. ys = xs @ vs)"
  by (induction ys xs rule: starts_with.induct) auto

lemma py_in_iff: "py_in xs ys \<longleftrightarrow> (\<exists>us vs. ys = us @ xs @ vs)"
proof (induction ys)
  case Nil
  show ?case by auto
next
  case (Cons y ys)
  show ?case
  proof
    assume "py_in xs (y # ys)"
    then consider "starts_with (y # ys) xs" | "py_in xs ys" by auto
    then show "\<exists>us vs. y # ys = us @ xs @ vs"
    proof cases
      case 1
      then obtain vs where "y # ys = xs @ vs" by (auto simp: starts_with_iff)
      then have "y # ys = [] @ xs @ vs" by simp
      then show ?thesis by blast
    next
      case 2
      then obtain us vs where "ys = us @ xs @ vs" using Cons.IH by auto
      then have "y # ys = (y # us) @ xs @ vs" by simp
      then show ?thesis by blast
    qed
  next
    assume "\<exists>us vs. y # ys = us @ xs @ vs"
    then obtain us vs where eq: "y # ys = us @ xs @ vs" by auto
    show "py_in xs (y # ys)"
    proof (cases us)
      case Nil
      with eq have "starts_with (y # ys) xs" by (auto simp: starts_with_iff)
      then show ?thesis by simp
    next
      case (Cons u us')
      with eq have "ys = us' @ xs @ vs" by simp
      then have "py_in xs ys" using Cons.IH by blast
      then show ?thesis by simp
    qed
  qed
qed

lemma py_in_refl: "py_in xs xs"
  unfolding py_in_iff by (rule exI [of _ "[]"], rule exI [of _ "[]"]) simp

lemma py_in_Nil: "py_in xs [] \<longleftrightarrow> xs = []"
  by simp

lemma not_contained_differs: "(m \<noteq> q \<and> \<not> py_in m q) = (\<not> py_in m q)"
  using py_in_refl by auto

lemma sent_texts_append: "sent_texts (a @ b) = sent_texts a @ sent_texts b"
  by (induction a rule: sent_texts.induct) simp_all

lemma requests_made_append: "requests_made (a @ b) = requests_made a @ requests_made b"
  by (induction a rule: requests_made.induct) simp_all

lemma sent_texts_send_message: "sent_texts (send_message cfg out m) = [m]"
  by (simp add: send_message_def split: option.splits)

lemma requests_made_send_message: "requests_made (send_message cfg out m) = []"
  by (simp add: send_message_def split: option.splits)

lemma ascii_keys_distinct:
  "ascii ''approved'' \<noteq> ascii ''reviewing''" "ascii ''approved'' \<noteq> ascii ''rejected''"
  "ascii ''reviewing'' \<noteq> ascii ''rejected''" "ascii ''reviewing'' \<noteq> ascii ''approved''"
  "ascii ''rejected'' \<noteq> ascii ''approved''" "ascii ''rejected'' \<noteq> ascii ''reviewing''"
  by (simp_all add: ascii_def)

lemma verdict_lookup:
  "map_of HOMEWORK_VERDICTS k =
     (if k = ascii ''approved'' then Some verdict_approved
      else if k = ascii ''reviewing'' then Some verdict_reviewing
      else if k = ascii ''rejected'' then Some verdict_rejected else None)"
  by (simp add: HOMEWORK_VERDICTS_def)

section \<open>What one pass does\<close>

lemma fst_get_api_answer:
  "fst (get_api_answer rt cfg now got c) =
     [Log INFO (format_request rt txt_request_begin (params_request cfg now c)),
      Get (params_request cfg now c)]"
  by (simp add: get_api_answer_def Let_def)

lemma fst_check_response: "fst (check_response r) = [Log INFO txt_check_begin]"
  by (simp add: check_response_def)

lemma fst_parse_status: "fst (parse_status rt h) = [Log INFO txt_parse_begin]"
  by (simp add: parse_status_def)

lemma poll_message_prev_msg: "prev_msg (fst (poll_message rt cfg p s)) = prev_msg s"
  by (simp add: poll_message_def Let_def split: prod.splits sum.splits list.splits)

lemma poll_message_sent: "sent_texts (fst (snd (poll_message rt cfg p s))) = []"
proof -
  have a: "\<And>ev r. get_api_answer rt cfg (clock_request p) (answer p) (current_timestamp s) = (ev, r)
     \<Longrightarrow> sent_texts ev = []"
    using fst_get_api_answer [of rt cfg "clock_request p" "answer p" "current_timestamp s"] by auto
  have b: "\<And>x ev r. check_response x = (ev, r) \<Longrightarrow> sent_texts ev = []"
    using fst_check_response by (metis fst_conv sent_texts.simps(1,3))
  have c: "\<And>x ev r. parse_status rt x = (ev, r) \<Longrightarrow> sent_texts ev = []"
    using fst_parse_status by (metis fst_conv sent_texts.simps(1,3))
  show ?thesis
    by (auto simp: poll_message_def Let_def sent_texts_append a b c
        split: prod.splits sum.splits list.splits)
qed

lemma poll_message_requests:
  "requests_made (fst (snd (poll_message rt cfg p s))) =
     [params_request cfg (clock_request p) (current_timestamp s)]"
proof -
  have a: "\<And>ev r. get_api_answer rt cfg (clock_request p) (answer p) (current_timestamp s) = (ev, r)
     \<Longrightarrow> requests_made ev = [params_request cfg (clock_request p) (current_timestamp s)]"
    using fst_get_api_answer [of rt cfg "clock_request p" "answer p" "current_timestamp s"] by auto
  have b: "\<And>x ev r. check_response x = (ev, r) \<Longrightarrow> requests_made ev = []"
    using fst_check_response by (metis fst_conv requests_made.simps(1,3))
  have c: "\<And>x ev r. parse_status rt x = (ev, r) \<Longrightarrow> requests_made ev = []"
    using fst_parse_status by (metis fst_conv requests_made.simps(1,3))
  show ?thesis
    by (auto simp: poll_message_def Let_def requests_made_append a b c
        split: prod.splits sum.splits list.splits)
qed

lemma poll_message_fetch_error:
  assumes "snd (get_api_answer rt cfg (clock_request p) (answer p) (current_timestamp s)) = Inl e"
  shows "poll_message rt cfg p s =
    (s, fst (get_api_answer rt cfg (clock_request p) (answer p) (current_timestamp s)), Inl e)"
proof -
  obtain ev1 where "get_api_answer rt cfg (clock_request p) (answer p) (current_timestamp s) =
      (ev1, Inl e)"
    using assms by (cases "get_api_answer rt cfg (clock_request p) (answer p) (current_timestamp s)") simp
  then show ?thesis by (simp add: poll_message_def)
qed

lemma poll_message_dict:
  assumes "snd (get_api_answer rt cfg (clock_request p) (answer p) (current_timestamp s)) = Inr (JDict d)"
  shows "poll_message rt cfg p s =
    (let s1 = s\<lparr>current_timestamp :=
                 (case map_of d (ascii ''current_date'') of
                    Some v \<Rightarrow> v | None \<Rightarrow> JInt (clock_cursor p))\<rparr>;
         ev1 = fst (get_api_answer rt cfg (clock_request p) (answer p) (current_timestamp s)) @
               [Log INFO txt_check_begin]
     in case snd (check_response (JDict d)) of
          Inl e \<Rightarrow> (s1, ev1, Inl e)
        | Inr [] \<Rightarrow> (s1, ev1, Inr txt_no_new_statuses)
        | Inr (homework # rest) \<Rightarrow>
            (s1, ev1 @ [Log INFO txt_parse_begin], snd (parse_status rt homework)))"
proof -
  obtain ev1 where g: "get_api_answer rt cfg (clock_request p) (answer p) (current_timestamp s) =
      (ev1, Inr (JDict d))"
    using assms by (cases "get_api_answer rt cfg (clock_request p) (answer p) (current_timestamp s)") simp
  obtain r2 where c: "check_response (JDict d) = ([Log INFO txt_check_begin], r2)"
    using fst_check_response [of "JDict d"] by (cases "check_response (JDict d)") simp
  have ps: "\<And>h a b. parse_status rt h = (a, b) \<Longrightarrow> a = [Log INFO txt_parse_begin]"
    using fst_parse_status by (metis fst_conv)
  show ?thesis
    by (auto simp: poll_message_def g c get_current_date_def Let_def
        split: sum.splits list.splits prod.splits dest: ps)
qed

lemma poll_message_not_dict:
  assumes "snd (get_api_answer rt cfg (clock_request p) (answer p) (current_timestamp s)) = Inr r"
      and "\<forall>d. r \<noteq> JDict d"
  shows "poll_message rt cfg p s =
    (s, fst (get_api_answer rt cfg (clock_request p) (answer p) (current_timestamp s)),
     Inl (no_attribute_get r))"
proof -
  obtain ev1 where g: "get_api_answer rt cfg (clock_request p) (answer p) (current_timestamp s) =
      (ev1, Inr r)"
    using assms(1) by (cases "get_api_answer rt cfg (clock_request p) (answer p) (current_timestamp s)") simp
  have "get_current_date r (JInt (clock_cursor p)) = Inl (no_attribute_get r)"
    using assms(2) by (cases r) (simp_all add: get_current_date_def)
  then show ?thesis by (simp add: poll_message_def g)
qed

lemma poll_message_cursor:
  "current_timestamp (fst (poll_message rt cfg p s)) =
     (case snd (get_api_answer rt cfg (clock_request p) (answer p) (current_timestamp s)) of
        Inr (JDict d) \<Rightarrow>
          (case map_of d (ascii ''current_date'') of Some v \<Rightarrow> v | None \<Rightarrow> JInt (clock_cursor p))
      | _ \<Rightarrow> current_timestamp s)"
  by (simp add: poll_message_def get_current_date_def Let_def
      split: prod.splits sum.splits list.splits json.splits option.splits)

lemma iteration_cursor:
  "current_timestamp (fst (iteration rt cfg nfs p s)) =
   current_timestamp (fst (poll_message rt cfg p s))"
  by (simp add: iteration_def notify_def Let_def split: prod.splits sum.splits)

lemma iteration_message:
  assumes "poll_message rt cfg p s = (s1, ev, Inr m)"
  shows "iteration rt cfg nfs p s =
    (if m \<noteq> prev_msg s \<and> \<not> py_in m (prev_msg s)
     then (s1\<lparr>prev_msg := m\<rparr>, ev @ send_message cfg (delivery p) m @ [Sleep RETRY_PERIOD])
     else (s1, ev @ [Log INFO m] @ [Sleep RETRY_PERIOD]))"
proof -
  have "prev_msg s1 = prev_msg s"
    using poll_message_prev_msg [of rt cfg p s] assms by simp
  then show ?thesis
    using assms by (simp add: iteration_def notify_def)
qed

lemma iteration_ends_with_sleep:
  "\<exists>evs. snd (iteration rt cfg nfs p s) = evs @ [Sleep RETRY_PERIOD]"
proof (cases "poll_message rt cfg p s")
  case (fields s1 ev r)
  show ?thesis
  proof (cases r)
    case (Inl e)
    have "\<exists>evs. snd (iteration rt cfg nfs p s) = evs @ [Sleep RETRY_PERIOD]"
      if "snd (iteration rt cfg nfs p s) = a @ b @ [Sleep RETRY_PERIOD]" for a b
      using that by (metis append_assoc)
    then show ?thesis
      using fields Inl
      by (cases "not_for_send nfs e") (simp_all add: iteration_def Let_def)
  next
    case (Inr m)
    obtain s2 sent where n: "notify cfg p m s1 = (s2, sent)" by (cases "notify cfg p m s1")
    have "snd (iteration rt cfg nfs p s) = (ev @ sent) @ [Sleep RETRY_PERIOD]"
      using fields Inr n by (simp add: iteration_def)
    then show ?thesis by blast
  qed
qed

lemma iteration_last: "last (snd (iteration rt cfg nfs p s)) = Sleep RETRY_PERIOD"
  using iteration_ends_with_sleep [of rt cfg nfs p s] by auto

lemma iteration_requests:
  "requests_made (snd (iteration rt cfg nfs p s)) =
     [params_request cfg (clock_request p) (current_timestamp s)]"
proof (cases "poll_message rt cfg p s")
  case (fields s1 ev r)
  then have ev: "requests_made ev = [params_request cfg (clock_request p) (current_timestamp s)]"
    using poll_message_requests [of rt cfg p s] by simp
  show ?thesis
    using fields ev
    by (cases r)
      (simp_all add: iteration_def notify_def Let_def requests_made_append
        requests_made_send_message)
qed

lemma loop_append:
  "loop rt cfg nfs (ps @ qs) s =
     (case loop rt cfg nfs ps s of
        (s1, evs) \<Rightarrow> (case loop rt cfg nfs qs s1 of (s2, later) \<Rightarrow> (s2, evs @ later)))"
  by (induction ps arbitrary: s) (simp_all split: prod.splits)

lemma loop_snoc:
  "loop rt cfg nfs (ps @ [p]) s =
     (case loop rt cfg nfs ps s of
        (s1, evs) \<Rightarrow> (fst (iteration rt cfg nfs p s1), evs @ snd (iteration rt cfg nfs p s1)))"
  by (simp add: loop_append split: prod.splits)

lemma main_snoc:
  assumes "main rt cfg nfs su ps = Polling s evs"
  shows "main rt cfg nfs su (ps @ [p]) =
           Polling (fst (iteration rt cfg nfs p s)) (evs @ snd (iteration rt cfg nfs p s))"
  using assms
  by (auto simp: main_def loop_snoc Let_def split: prod.splits sum.splits if_splits option.splits)

section \<open>Evaluating the sample inputs\<close>

lemmas ex_defs = rt_ex_def cfg_ex_def nfs_ex_def su_ex_def state_ex_def homework_ex_def
  body_ex_def poll_ex_def message_ex_def

lemmas model_defs = poll_message_def get_api_answer_def params_request_def get_current_date_def
  check_response_def parse_status_def iteration_def notify_def send_message_def
  HOMEWORK_VERDICTS_def HEADERS_def Let_def ascii_def not_for_send_def

lemmas text_defs = txt_status_changed_def verdict_approved_def verdict_reviewing_def
  verdict_rejected_def txt_no_new_statuses_def

lemma poll_ex_message:
  "snd (snd (poll_message rt_ex cfg_ex (poll_ex 200 (ascii ''OK'') (body_ex [homework_ex ''approved''] 1700000500)) s))
     = Inr message_ex"
  by (simp add: ex_defs model_defs)

lemma poll_ex_fetch:
  "snd (get_api_answer rt_ex cfg_ex (clock_request (poll_ex 200 why body))
       (answer (poll_ex 200 why body)) c) = Inr body"
  by (simp add: poll_ex_def get_api_answer_def Let_def)

section \<open>The claims\<close>

subsection \<open>C1: the dedup law\<close>

text \<open>
  Claim C1, as the code has it. When two consecutive passes of the loop render the same
  message \<open>m\<close>, the message is sent at most once. The first pass sends it exactly when it
  differs from the stored previous text and is not a substring of it (line 141; so, in
  particular, when the memory is still empty), and otherwise only logs it. The second
  pass never sends it: it logs \<open>m\<close> at level INFO and sleeps.
\<close>

theorem dedup_law:
  assumes "poll_message rt cfg p1 s = (s1, ev1, Inr m)"
      and "poll_message rt cfg p2 (fst (iteration rt cfg nfs p1 s)) = (s2, ev2, Inr m)"
  shows "sent_texts (snd (iteration rt cfg nfs p1 s)) =
           (if m \<noteq> prev_msg s \<and> \<not> py_in m (prev_msg s) then [m] else []) \<and>
         sent_texts (snd (iteration rt cfg nfs p2 (fst (iteration rt cfg nfs p1 s)))) = [] \<and>
         snd (iteration rt cfg nfs p2 (fst (iteration rt cfg nfs p1 s))) =
           ev2 @ [Log INFO m] @ [Sleep RETRY_PERIOD]"
proof -
  let ?s' = "fst (iteration rt cfg nfs p1 s)"
  have quiet1: "sent_texts ev1 = []"
    using poll_message_sent [of rt cfg p1 s] assms(1) by simp
  have quiet2: "sent_texts ev2 = []"
    using poll_message_sent [of rt cfg p2 ?s'] assms(2) by simp
  have first: "sent_texts (snd (iteration rt cfg nfs p1 s)) =
           (if m \<noteq> prev_msg s \<and> \<not> py_in m (prev_msg s) then [m] else [])"
    by (simp add: iteration_message [OF assms(1)] sent_texts_append quiet1
        sent_texts_send_message)
  have "prev_msg ?s' = (if m \<noteq> prev_msg s \<and> \<not> py_in m (prev_msg s) then m else prev_msg s)"
    using poll_message_prev_msg [of rt cfg p1 s] assms(1)
    by (simp add: iteration_message [OF assms(1)])
  then have known: "\<not> (m \<noteq> prev_msg ?s' \<and> \<not> py_in m (prev_msg ?s'))"
    by (auto simp: py_in_refl)
  have second: "iteration rt cfg nfs p2 ?s' = (s2, ev2 @ [Log INFO m] @ [Sleep RETRY_PERIOD])"
    using iteration_message [OF assms(2), of nfs] known by simp
  show ?thesis
    using first second by (simp add: sent_texts_append quiet2)
qed

text \<open>
  The law on a fresh memory: the same approved homework polled twice is sent once, on
  the first pass.
\<close>

theorem dedup_law_witness:
  "sent_texts (snd (iteration rt_ex cfg_ex nfs_ex
       (poll_ex 200 (ascii ''OK'') (body_ex [homework_ex ''approved''] 1700000500)) (state_ex 0 []))) =
     [message_ex] \<and>
   sent_texts (snd (iteration rt_ex cfg_ex nfs_ex
       (poll_ex 200 (ascii ''OK'') (body_ex [homework_ex ''approved''] 1700000500))
       (fst (iteration rt_ex cfg_ex nfs_ex
          (poll_ex 200 (ascii ''OK'') (body_ex [homework_ex ''approved''] 1700000500))
          (state_ex 0 []))))) = []"
proof -
  let ?p = "poll_ex 200 (ascii ''OK'') (body_ex [homework_ex ''approved''] 1700000500)"
  let ?s = "state_ex 0 []"
  let ?s' = "fst (iteration rt_ex cfg_ex nfs_ex ?p ?s)"
  have a: "poll_message rt_ex cfg_ex ?p ?s =
      (fst (poll_message rt_ex cfg_ex ?p ?s), fst (snd (poll_message rt_ex cfg_ex ?p ?s)), Inr message_ex)"
    using poll_ex_message [of ?s] by (metis prod.collapse)
  have b: "poll_message rt_ex cfg_ex ?p ?s' =
      (fst (poll_message rt_ex cfg_ex ?p ?s'), fst (snd (poll_message rt_ex cfg_ex ?p ?s')), Inr message_ex)"
    using poll_ex_message [of ?s'] by (metis prod.collapse)
  have c: "message_ex \<noteq> []" by (simp add: message_ex_def txt_status_changed_def)
  note law = dedup_law [OF a b]
  show ?thesis
    using conjunct1 [OF law] conjunct1 [OF conjunct2 [OF law]] c by (simp add: state_ex_def)
qed

text \<open>
  Claim C1 as stated asks for exactly one send, on the first of the two passes. When the
  stored text already is the message (the state a first pass with this homework leaves
  behind), two further passes render the same message and send nothing at all.
\<close>

theorem dedup_law_counterexample:
  "snd (snd (poll_message rt_ex cfg_ex
       (poll_ex 200 (ascii ''OK'') (body_ex [homework_ex ''approved''] 1700000500))
       (state_ex 1700000500 message_ex))) = Inr message_ex \<and>
   fst (iteration rt_ex cfg_ex nfs_ex
       (poll_ex 200 (ascii ''OK'') (body_ex [homework_ex ''approved''] 1700000500))
       (state_ex 1700000500 message_ex)) = state_ex 1700000500 message_ex \<and>
   sent_texts (snd (loop rt_ex cfg_ex nfs_ex
       [poll_ex 200 (ascii ''OK'') (body_ex [homework_ex ''approved''] 1700000500),
        poll_ex 200 (ascii ''OK'') (body_ex [homework_ex ''approved''] 1700000500)]
       (state_ex 1700000500 message_ex))) = []"
  by (simp add: ex_defs model_defs txt_status_changed_def verdict_approved_def
      verdict_reviewing_def verdict_rejected_def split: prod.splits)

subsection \<open>C2: an empty list of homeworks\<close>

text \<open>
  Claim C2, as the code has it. When the validated list of homeworks is empty, the
  message of the pass is the fixed text of line 137, and it goes through the same test
  as any other message: it is sent to the chat unless the stored previous text contains
  it, in which case it is only logged at level INFO.
\<close>

theorem empty_homeworks_iteration:
  assumes "snd (get_api_answer rt cfg (clock_request p) (answer p) (current_timestamp s)) = Inr (JDict d)"
      and "map_of d (ascii ''homeworks'') = Some (JList [])"
      and "map_of d (ascii ''current_date'') = Some date"
  shows "snd (snd (poll_message rt cfg p s)) = Inr txt_no_new_statuses \<and>
         sent_texts (snd (iteration rt cfg nfs p s)) =
           (if py_in txt_no_new_statuses (prev_msg s) then [] else [txt_no_new_statuses]) \<and>
         snd (iteration rt cfg nfs p s) =
           fst (get_api_answer rt cfg (clock_request p) (answer p) (current_timestamp s)) @
           [Log INFO txt_check_begin] @
           (if py_in txt_no_new_statuses (prev_msg s)
            then [Log INFO txt_no_new_statuses]
            else send_message cfg (delivery p) txt_no_new_statuses) @
           [Sleep RETRY_PERIOD]"
proof -
  let ?ev = "fst (get_api_answer rt cfg (clock_request p) (answer p) (current_timestamp s)) @
             [Log INFO txt_check_begin]"
  have checked: "snd (check_response (JDict d)) = Inr []"
    using assms(2,3) by (simp add: check_response_def)
  have pm: "poll_message rt cfg p s = (s\<lparr>current_timestamp := date\<rparr>, ?ev, Inr txt_no_new_statuses)"
    by (simp add: poll_message_dict [OF assms(1)] checked assms(3))
  have quiet: "sent_texts ?ev = []"
    using poll_message_sent [of rt cfg p s] pm by simp
  have it: "iteration rt cfg nfs p s =
    (if \<not> py_in txt_no_new_statuses (prev_msg s)
     then (s\<lparr>current_timestamp := date, prev_msg := txt_no_new_statuses\<rparr>,
           ?ev @ send_message cfg (delivery p) txt_no_new_statuses @ [Sleep RETRY_PERIOD])
     else (s\<lparr>current_timestamp := date\<rparr>,
           ?ev @ [Log INFO txt_no_new_statuses] @ [Sleep RETRY_PERIOD]))"
    using iteration_message [OF pm, of nfs] by (simp add: not_contained_differs)
  have sent: "sent_texts (snd (iteration rt cfg nfs p s)) =
           (if py_in txt_no_new_statuses (prev_msg s) then [] else [txt_no_new_statuses])"
    using quiet by (simp add: it sent_texts_append sent_texts_send_message)
  show ?thesis
    using sent by (simp add: pm it)
qed

text \<open>
  With the fixed text already stored, the pass sends nothing.
\<close>

theorem empty_homeworks_iteration_witness:
  "snd (snd (poll_message rt_ex cfg_ex (poll_ex 200 (ascii ''OK'') (body_ex [] 1700000500))
       (state_ex 1700000000 txt_no_new_statuses))) = Inr txt_no_new_statuses \<and>
   sent_texts (snd (iteration rt_ex cfg_ex nfs_ex (poll_ex 200 (ascii ''OK'') (body_ex [] 1700000500))
       (state_ex 1700000000 txt_no_new_statuses))) = []"
proof -
  let ?p = "poll_ex 200 (ascii ''OK'') (body_ex [] 1700000500)"
  let ?s = "state_ex 1700000000 txt_no_new_statuses"
  have a: "snd (get_api_answer rt_ex cfg_ex (clock_request ?p) (answer ?p) (current_timestamp ?s)) =
      Inr (JDict [(ascii ''homeworks'', JList []), (ascii ''current_date'', JInt 1700000500)])"
    by (simp add: poll_ex_fetch body_ex_def)
  have b: "map_of [(ascii ''homeworks'', JList []), (ascii ''current_date'', JInt 1700000500)]
      (ascii ''homeworks'') = Some (JList [])"
    by simp
  have c: "map_of [(ascii ''homeworks'', JList []), (ascii ''current_date'', JInt 1700000500)]
      (ascii ''current_date'') = Some (JInt 1700000500)"
    by (simp add: ascii_def)
  note inst = empty_homeworks_iteration [OF a b c, where nfs = nfs_ex]
  show ?thesis
    using conjunct1 [OF inst] conjunct1 [OF conjunct2 [OF inst]]
    by (simp add: state_ex_def py_in_refl)
qed

text \<open>
  Claim C2 as stated says that nothing is sent whatever the stored text is. On the
  fresh memory the fixed text is sent to the chat.
\<close>

theorem empty_homeworks_counterexample:
  "sent_texts (snd (iteration rt_ex cfg_ex nfs_ex
       (poll_ex 200 (ascii ''OK'') (body_ex [] 1700000500)) (state_ex 0 []))) =
     [txt_no_new_statuses]"
  by (simp add: ex_defs model_defs text_defs split: prod.splits)

subsection \<open>C3: a malformed response and the cursor\<close>

text \<open>
  Claim C3, as the code has it. Line 131 moves the cursor before line 134 validates the
  response. A response that is not a mapping has no \<open>get\<close>: line 131 raises, the
  validator is not reached and the cursor keeps its value. A mapping that misses
  \<open>homeworks\<close> or \<open>current_date\<close> first moves the cursor, to its \<open>current_date\<close> or,
  without one, to the clock, and then fails validation with the empty-response error.
\<close>

theorem malformed_response_cursor:
  assumes "snd (get_api_answer rt cfg (clock_request p) (answer p) (current_timestamp s)) = Inr response"
  shows "((\<forall>d. response \<noteq> JDict d) \<longrightarrow>
            poll_message rt cfg p s =
              (s, fst (get_api_answer rt cfg (clock_request p) (answer p) (current_timestamp s)),
               Inl (no_attribute_get response)) \<and>
            current_timestamp (fst (iteration rt cfg nfs p s)) = current_timestamp s) \<and>
         (response = JDict d \<and>
          (map_of d (ascii ''homeworks'') = None \<or> map_of d (ascii ''current_date'') = None) \<longrightarrow>
            snd (snd (poll_message rt cfg p s)) =
              Inl (Exn EmptyResponseFromAPI txt_no_homeworks_key None) \<and>
            current_timestamp (fst (iteration rt cfg nfs p s)) =
              (case map_of d (ascii ''current_date'') of
                 Some v \<Rightarrow> v | None \<Rightarrow> JInt (clock_cursor p)))"
proof (intro conjI impI)
  assume nd: "\<forall>d. response \<noteq> JDict d"
  show "poll_message rt cfg p s =
              (s, fst (get_api_answer rt cfg (clock_request p) (answer p) (current_timestamp s)),
               Inl (no_attribute_get response))"
    by (rule poll_message_not_dict [OF assms nd])
  then show "current_timestamp (fst (iteration rt cfg nfs p s)) = current_timestamp s"
    by (simp add: iteration_cursor)
next
  assume h: "response = JDict d \<and>
          (map_of d (ascii ''homeworks'') = None \<or> map_of d (ascii ''current_date'') = None)"
  then have g: "snd (get_api_answer rt cfg (clock_request p) (answer p) (current_timestamp s)) = Inr (JDict d)"
    using assms by simp
  have checked: "snd (check_response (JDict d)) = Inl (Exn EmptyResponseFromAPI txt_no_homeworks_key None)"
    using h by (auto simp: check_response_def)
  show "snd (snd (poll_message rt cfg p s)) = Inl (Exn EmptyResponseFromAPI txt_no_homeworks_key None)"
    by (simp add: poll_message_dict [OF g] checked Let_def)
  show "current_timestamp (fst (iteration rt cfg nfs p s)) =
              (case map_of d (ascii ''current_date'') of
                 Some v \<Rightarrow> v | None \<Rightarrow> JInt (clock_cursor p))"
    by (simp add: iteration_cursor poll_message_cursor g)
qed

text \<open>
  A list as the response leaves the cursor alone; a mapping without \<open>current_date\<close>
  moves it to the clock and is then rejected.
\<close>

theorem malformed_response_cursor_witness:
  "current_timestamp (fst (iteration rt_ex cfg_ex nfs_ex
       (poll_ex 200 (ascii ''OK'') (JList [])) (state_ex 1700000000 []))) = JInt 1700000000 \<and>
   snd (snd (poll_message rt_ex cfg_ex
       (poll_ex 200 (ascii ''OK'') (JDict [(ascii ''homeworks'', JList [])])) (state_ex 1700000000 []))) =
     Inl (Exn EmptyResponseFromAPI txt_no_homeworks_key None) \<and>
   current_timestamp (fst (iteration rt_ex cfg_ex nfs_ex
       (poll_ex 200 (ascii ''OK'') (JDict [(ascii ''homeworks'', JList [])])) (state_ex 1700000000 []))) =
     JInt 1700000001"
proof -
  let ?s = "state_ex 1700000000 []"
  let ?p1 = "poll_ex 200 (ascii ''OK'') (JList [])"
  let ?p2 = "poll_ex 200 (ascii ''OK'') (JDict [(ascii ''homeworks'', JList [])])"
  have a1: "snd (get_api_answer rt_ex cfg_ex (clock_request ?p1) (answer ?p1) (current_timestamp ?s)) =
      Inr (JList [])"
    by (rule poll_ex_fetch)
  have a2: "snd (get_api_answer rt_ex cfg_ex (clock_request ?p2) (answer ?p2) (current_timestamp ?s)) =
      Inr (JDict [(ascii ''homeworks'', JList [])])"
    by (rule poll_ex_fetch)
  have h1: "\<forall>d. JList [] \<noteq> JDict d" by simp
  have h2: "JDict [(ascii ''homeworks'', JList [])] = JDict [(ascii ''homeworks'', JList [])] \<and>
      (map_of [(ascii ''homeworks'', JList [])] (ascii ''homeworks'') = None \<or>
       map_of [(ascii ''homeworks'', JList [])] (ascii ''current_date'') = None)"
    by (simp add: ascii_def)
  have c1: "current_timestamp (fst (iteration rt_ex cfg_ex nfs_ex ?p1 ?s)) = current_timestamp ?s"
    using conjunct1 [OF malformed_response_cursor [OF a1, where nfs = nfs_ex]] h1 by blast
  have c2: "snd (snd (poll_message rt_ex cfg_ex ?p2 ?s)) =
        Inl (Exn EmptyResponseFromAPI txt_no_homeworks_key None) \<and>
      current_timestamp (fst (iteration rt_ex cfg_ex nfs_ex ?p2 ?s)) =
        (case map_of [(ascii ''homeworks'', JList [])] (ascii ''current_date'') of
           Some v \<Rightarrow> v | None \<Rightarrow> JInt (clock_cursor ?p2))"
    using conjunct2 [OF malformed_response_cursor [OF a2, where d = "[(ascii ''homeworks'', JList [])]" and nfs = nfs_ex]] h2
    by blast
  show ?thesis
    using c1 c2 by (simp add: state_ex_def poll_ex_def ascii_def)
qed

text \<open>
  Claim C3 as stated says that the cursor keeps its value for every malformed response.
  A mapping that has \<open>current_date\<close> and no \<open>homeworks\<close> is rejected by the validator,
  and the cursor has moved to its date all the same.
\<close>

theorem malformed_response_cursor_counterexample:
  "snd (snd (poll_message rt_ex cfg_ex
       (poll_ex 200 (ascii ''OK'') (JDict [(ascii ''current_date'', JInt 1700000500)]))
       (state_ex 1700000000 []))) = Inl (Exn EmptyResponseFromAPI txt_no_homeworks_key None) \<and>
   current_timestamp (fst (iteration rt_ex cfg_ex nfs_ex
       (poll_ex 200 (ascii ''OK'') (JDict [(ascii ''current_date'', JInt 1700000500)]))
       (state_ex 1700000000 []))) = JInt 1700000500 \<and>
   current_timestamp (state_ex 1700000000 []) = JInt 1700000000"
  by (simp add: ex_defs model_defs split: prod.splits)

subsection \<open>C4: where the cursor goes\<close>

text \<open>
  Claim C4, as the code has it. After a pass the cursor is the \<open>current_date\<close> of the
  fetched mapping, or the clock when the mapping has none; when the fetch fails or returns
  something that is not a mapping, the cursor is what it was. Nothing compares the new
  value with the old one, so the cursor does not decrease exactly as long as the reported
  date (or the clock) is not below it.
\<close>

theorem cursor_after_iteration:
  "current_timestamp (fst (iteration rt cfg nfs p s)) =
     (case snd (get_api_answer rt cfg (clock_request p) (answer p) (current_timestamp s)) of
        Inr (JDict d) \<Rightarrow>
          (case map_of d (ascii ''current_date'') of Some v \<Rightarrow> v | None \<Rightarrow> JInt (clock_cursor p))
      | _ \<Rightarrow> current_timestamp s) \<and>
   (current_timestamp s = JInt c \<and>
    (\<forall>d. snd (get_api_answer rt cfg (clock_request p) (answer p) (current_timestamp s)) = Inr (JDict d) \<longrightarrow>
       (\<exists>c'. c \<le> c' \<and>
          (case map_of d (ascii ''current_date'') of
             Some v \<Rightarrow> v | None \<Rightarrow> JInt (clock_cursor p)) = JInt c')) \<longrightarrow>
    (\<exists>c'. c \<le> c' \<and> current_timestamp (fst (iteration rt cfg nfs p s)) = JInt c'))"
proof -
  have eq: "current_timestamp (fst (iteration rt cfg nfs p s)) =
     (case snd (get_api_answer rt cfg (clock_request p) (answer p) (current_timestamp s)) of
        Inr (JDict d) \<Rightarrow>
          (case map_of d (ascii ''current_date'') of Some v \<Rightarrow> v | None \<Rightarrow> JInt (clock_cursor p))
      | _ \<Rightarrow> current_timestamp s)"
    by (simp add: iteration_cursor poll_message_cursor)
  show ?thesis
    unfolding eq by (auto split: sum.splits json.splits)
qed

text \<open>
  A reported date above the cursor becomes the new cursor.
\<close>

theorem cursor_after_iteration_witness:
  "current_timestamp (fst (iteration rt_ex cfg_ex nfs_ex
       (poll_ex 200 (ascii ''OK'') (body_ex [] 1700000500)) (state_ex 1700000000 []))) =
     JInt 1700000500 \<and>
   (\<exists>c'. 1700000000 \<le> c' \<and>
      current_timestamp (fst (iteration rt_ex cfg_ex nfs_ex
        (poll_ex 200 (ascii ''OK'') (body_ex [] 1700000500)) (state_ex 1700000000 []))) = JInt c')"
proof -
  let ?p = "poll_ex 200 (ascii ''OK'') (body_ex [] 1700000500)"
  let ?s = "state_ex 1700000000 []"
  have a: "snd (get_api_answer rt_ex cfg_ex (clock_request ?p) (answer ?p) (current_timestamp ?s)) =
      Inr (body_ex [] 1700000500)"
    by (rule poll_ex_fetch)
  have h: "current_timestamp ?s = JInt 1700000000 \<and>
    (\<forall>d. snd (get_api_answer rt_ex cfg_ex (clock_request ?p) (answer ?p) (current_timestamp ?s)) = Inr (JDict d) \<longrightarrow>
       (\<exists>c'. 1700000000 \<le> c' \<and>
          (case map_of d (ascii ''current_date'') of
             Some v \<Rightarrow> v | None \<Rightarrow> JInt (clock_cursor ?p)) = JInt c'))"
    unfolding a by (simp add: state_ex_def body_ex_def ascii_def)
  note inst = cursor_after_iteration [of rt_ex cfg_ex nfs_ex ?p ?s 1700000000]
  have "current_timestamp (fst (iteration rt_ex cfg_ex nfs_ex ?p ?s)) = JInt 1700000500"
    using conjunct1 [OF inst] unfolding a by (simp add: body_ex_def ascii_def)
  moreover have "\<exists>c'. 1700000000 \<le> c' \<and>
      current_timestamp (fst (iteration rt_ex cfg_ex nfs_ex ?p ?s)) = JInt c'"
    using conjunct2 [OF inst] h by blast
  ultimately show ?thesis by blast
qed

text \<open>
  Claim C4 as stated says that no pass makes the cursor smaller. A response whose
  \<open>current_date\<close> lies before the cursor moves the cursor back to it.
\<close>

theorem cursor_monotone_counterexample:
  "current_timestamp (state_ex 1700000500 []) = JInt 1700000500 \<and>
   current_timestamp (fst (iteration rt_ex cfg_ex nfs_ex
       (poll_ex 200 (ascii ''OK'') (body_ex [] 1700000000)) (state_ex 1700000500 []))) =
     JInt 1700000000 \<and>
   (1700000000 :: int) < 1700000500"
  by (simp add: ex_defs model_defs split: prod.splits)

subsection \<open>C5: the request of the fetch helper\<close>

text \<open>
  Claim C5, as the code has it. \<open>get_api_answer\<close> makes one request, to the endpoint. Its
  \<open>from_date\<close> parameter is the cursor when the cursor is truthy, and the clock otherwise
  (line 49: \<open>current_timestamp or int(time.time())\<close>), so the initial cursor 0 is replaced
  by the clock. Its headers hold \<open>Authorization\<close> exactly once, with the value
  \<open>OAuth\<close>, a space and the credential.
\<close>

theorem get_api_answer_request:
  "requests_made (fst (get_api_answer rt cfg now got c)) = [params_request cfg now c] \<and>
   url (params_request cfg now c) = ENDPOINT \<and>
   params (params_request cfg now c) =
     [(ascii ''from_date'', if truthy c then c else JInt now)] \<and>
   headers (params_request cfg now c) =
     [(ascii ''Authorization'', ascii ''OAuth '' @ str_env (PRACTICUM_TOKEN cfg))] \<and>
   length (filter (\<lambda>h. fst h = ascii ''Authorization'') (headers (params_request cfg now c))) = 1"
  by (simp add: fst_get_api_answer params_request_def HEADERS_def Let_def)

text \<open>
  A non-zero cursor is carried as it is, next to the one \<open>Authorization\<close> header.
\<close>

theorem get_api_answer_request_witness:
  "params (params_request cfg_ex 1700000000 (JInt 1699990000)) =
     [(ascii ''from_date'', JInt 1699990000)] \<and>
   headers (params_request cfg_ex 1700000000 (JInt 1699990000)) =
     [(ascii ''Authorization'', ascii ''OAuth y0_token'')] \<and>
   length (filter (\<lambda>h. fst h = ascii ''Authorization'')
     (headers (params_request cfg_ex 1700000000 (JInt 1699990000)))) = 1"
  using get_api_answer_request [of rt_ex cfg_ex 1700000000
      "Raised (Exn RequestException [] None)" "JInt 1699990000"]
  by (simp add: str_env_def ascii_def cfg_ex_def)

text \<open>
  Claim C5 as stated includes the cursor 0. For it the request carries the clock, not 0.
\<close>

theorem from_date_zero_counterexample:
  "map_of (params (params_request cfg_ex 1700000000 (JInt 0))) (ascii ''from_date'') =
     Some (JInt 1700000000) \<and>
   JInt 1700000000 \<noteq> JInt 0"
  by (simp add: params_request_def Let_def)

subsection \<open>C6: a failed fetch\<close>

text \<open>
  Claim C6. When \<open>requests.get\<close> raises an error of the library, or answers with a status
  other than 200, \<open>get_api_answer\<close> raises \<open>WrongResponseCode\<close>; for a status other
  than 200 its message holds the status code, the reason phrase and the body text. The
  pass leaves the cursor as it was and ends with the sleep of 600 seconds, the next pass
  builds its request from the same cursor, and a process that was polling is still polling
  after the pass.
\<close>

theorem fetch_failure_iteration:
  assumes "(\<exists>e. answer p = Raised e \<and> cls e = RequestException) \<or>
           (\<exists>r. answer p = Response r \<and> status_code r \<noteq> 200)"
  shows "snd (get_api_answer rt cfg (clock_request p) (answer p) (current_timestamp s)) =
           Inl (case answer p of
                  Raised e \<Rightarrow>
                    Exn WrongResponseCode
                      (format_request rt txt_api_not_200
                         (params_request cfg (clock_request p) (current_timestamp s)))
                      (Some e)
                | Response r \<Rightarrow>
                    Exn WrongResponseCode
                      (txt_answer_not_200 @ txt_code @ str_int (status_code r) @ ascii ''. '' @
                       txt_reason @ reason r @ ascii ''. '' @ txt_text @ text_body r @ ascii ''.'')
                      None) \<and>
         current_timestamp (fst (iteration rt cfg nfs p s)) = current_timestamp s \<and>
         last (snd (iteration rt cfg nfs p s)) = Sleep RETRY_PERIOD \<and>
         requests_made (snd (iteration rt cfg nfs p' (fst (iteration rt cfg nfs p s)))) =
           [params_request cfg (clock_request p') (current_timestamp s)] \<and>
         (main rt cfg nfs su ps = Polling s evs \<longrightarrow>
            main rt cfg nfs su (ps @ [p]) =
              Polling (fst (iteration rt cfg nfs p s)) (evs @ snd (iteration rt cfg nfs p s)))"
proof -
  have raised: "snd (get_api_answer rt cfg (clock_request p) (answer p) (current_timestamp s)) =
           Inl (case answer p of
                  Raised e \<Rightarrow>
                    Exn WrongResponseCode
                      (format_request rt txt_api_not_200
                         (params_request cfg (clock_request p) (current_timestamp s)))
                      (Some e)
                | Response r \<Rightarrow>
                    Exn WrongResponseCode
                      (txt_answer_not_200 @ txt_code @ str_int (status_code r) @ ascii ''. '' @
                       txt_reason @ reason r @ ascii ''. '' @ txt_text @ text_body r @ ascii ''.'')
                      None)"
    using assms by (auto simp: get_api_answer_def wrong_code_message_def Let_def)
  then have cursor: "current_timestamp (fst (iteration rt cfg nfs p s)) = current_timestamp s"
    by (simp add: iteration_cursor poll_message_cursor)
  show ?thesis
    using raised cursor main_snoc [of rt cfg nfs su ps s evs p]
    by (simp add: iteration_last iteration_requests)
qed

text \<open>
  A 503 answer: the message of the error, the unchanged cursor, the sleep, and the next
  request with the same \<open>from_date\<close>.
\<close>

theorem fetch_failure_iteration_witness:
  "snd (get_api_answer rt_ex cfg_ex 1700000000
       (answer (poll_ex 503 (ascii ''Service Unavailable'') JNull)) (JInt 1699990000)) =
     Inl (Exn WrongResponseCode
            (txt_answer_not_200 @ txt_code @ ascii ''503. '' @
             txt_reason @ ascii ''Service Unavailable. '' @ txt_text @ ascii ''.'')
            None) \<and>
   current_timestamp (fst (iteration rt_ex cfg_ex nfs_ex
       (poll_ex 503 (ascii ''Service Unavailable'') JNull) (state_ex 1699990000 []))) =
     JInt 1699990000 \<and>
   last (snd (iteration rt_ex cfg_ex nfs_ex
       (poll_ex 503 (ascii ''Service Unavailable'') JNull) (state_ex 1699990000 []))) = Sleep 600 \<and>
   map params (requests_made (snd (iteration rt_ex cfg_ex nfs_ex
       (poll_ex 200 (ascii ''OK'') (body_ex [] 1700000500))
       (fst (iteration rt_ex cfg_ex nfs_ex
          (poll_ex 503 (ascii ''Service Unavailable'') JNull) (state_ex 1699990000 [])))))) =
     [[(ascii ''from_date'', JInt 1699990000)]]"
proof -
  let ?p = "poll_ex 503 (ascii ''Service Unavailable'') JNull"
  let ?s = "state_ex 1699990000 []"
  have h: "(\<exists>e. answer ?p = Raised e \<and> cls e = RequestException) \<or>
           (\<exists>r. answer ?p = Response r \<and> status_code r \<noteq> 200)"
    by (simp add: poll_ex_def)
  note inst = fetch_failure_iteration [OF h, where rt = rt_ex and cfg = cfg_ex and nfs = nfs_ex
      and s = ?s and p' = "poll_ex 200 (ascii ''OK'') (body_ex [] 1700000500)"]
  have code: "str_int 503 = ascii ''503''"
    by (simp add: str_int_def str_nat.simps ascii_def)
  show ?thesis
    using conjunct1 [OF inst] conjunct1 [OF conjunct2 [OF inst]]
      conjunct1 [OF conjunct2 [OF conjunct2 [OF inst]]]
      conjunct1 [OF conjunct2 [OF conjunct2 [OF conjunct2 [OF inst]]]]
    by (simp add: poll_ex_def state_ex_def code RETRY_PERIOD_def params_request_def Let_def ascii_def)
qed

subsection \<open>C7: the response validator\<close>

text \<open>
  Claim C7, as the code has it. On a mapping that misses \<open>homeworks\<close> or
  \<open>current_date\<close>, \<open>check_response\<close> raises \<open>EmptyResponseFromAPI\<close>. On a mapping
  that has both keys and whose \<open>homeworks\<close> is not a list it raises \<open>TypeError\<close>. On a
  mapping that has both keys and whose \<open>homeworks\<close> is a list it returns that list
  unchanged. On anything that is not a mapping it raises \<open>TypeError\<close>.
\<close>

theorem check_response_cases:
  "(map_of d (ascii ''homeworks'') = None \<or> map_of d (ascii ''current_date'') = None \<longrightarrow>
      snd (check_response (JDict d)) = Inl (Exn EmptyResponseFromAPI txt_no_homeworks_key None)) \<and>
   (map_of d (ascii ''homeworks'') = Some v \<and> map_of d (ascii ''current_date'') = Some c \<and>
    (\<forall>hs. v \<noteq> JList hs) \<longrightarrow>
      snd (check_response (JDict d)) = Inl (Exn TypeError (txt_expected_list @ type_repr v) None)) \<and>
   (map_of d (ascii ''homeworks'') = Some (JList hs) \<and> map_of d (ascii ''current_date'') = Some c \<longrightarrow>
      snd (check_response (JDict d)) = Inr hs) \<and>
   ((\<forall>d'. r \<noteq> JDict d') \<longrightarrow>
      snd (check_response r) = Inl (Exn TypeError (txt_expected_dict @ type_repr r) None))"
  by (cases r; cases v) (auto simp: check_response_def)

text \<open>
  The four cases on concrete responses.
\<close>

theorem check_response_cases_witness:
  "snd (check_response (JDict [(ascii ''homeworks'', JList [])])) =
     Inl (Exn EmptyResponseFromAPI txt_no_homeworks_key None) \<and>
   snd (check_response (JDict [(ascii ''homeworks'', JInt 5), (ascii ''current_date'', JInt 7)])) =
     Inl (Exn TypeError (txt_expected_list @ ascii ''<class '' @ [39] @ ascii ''int'' @ [39] @ ascii ''>'') None) \<and>
   snd (check_response (body_ex [homework_ex ''approved''] 7)) = Inr [homework_ex ''approved''] \<and>
   snd (check_response (JList [])) =
     Inl (Exn TypeError (txt_expected_dict @ ascii ''<class '' @ [39] @ ascii ''list'' @ [39] @ ascii ''>'') None)"
proof -
  have 1: "snd (check_response (JDict [(ascii ''homeworks'', JList [])])) =
     Inl (Exn EmptyResponseFromAPI txt_no_homeworks_key None)"
    using conjunct1 [OF check_response_cases [where d = "[(ascii ''homeworks'', JList [])]"]]
    by (simp add: ascii_def)
  have 2: "snd (check_response (JDict [(ascii ''homeworks'', JInt 5), (ascii ''current_date'', JInt 7)])) =
     Inl (Exn TypeError (txt_expected_list @ type_repr (JInt 5)) None)"
    using conjunct1 [OF conjunct2 [OF check_response_cases
        [where d = "[(ascii ''homeworks'', JInt 5), (ascii ''current_date'', JInt 7)]"
           and v = "JInt 5" and c = "JInt 7"]]]
    by (simp add: ascii_def)
  have 3: "snd (check_response (body_ex [homework_ex ''approved''] 7)) = Inr [homework_ex ''approved'']"
    using conjunct1 [OF conjunct2 [OF conjunct2 [OF check_response_cases
        [where d = "[(ascii ''homeworks'', JList [homework_ex ''approved'']), (ascii ''current_date'', JInt 7)]"
           and hs = "[homework_ex ''approved'']" and c = "JInt 7"]]]]
    by (simp add: ascii_def body_ex_def)
  have 4: "snd (check_response (JList [])) =
     Inl (Exn TypeError (txt_expected_dict @ type_repr (JList [])) None)"
    using conjunct2 [OF conjunct2 [OF conjunct2 [OF check_response_cases [where r = "JList []"]]]]
    by simp
  show ?thesis
    using 1 2 3 4 by (simp add: type_repr_def quoted_def)
qed

text \<open>
  Claim C7 as stated says that \<open>homeworks\<close> present and not a sequence always raises a
  type error. Without \<open>current_date\<close> the missing key is found first (line 81) and the
  error is \<open>EmptyResponseFromAPI\<close>.
\<close>

theorem check_response_counterexample:
  "map_of [(ascii ''homeworks'', JInt 5)] (ascii ''homeworks'') = Some (JInt 5) \<and>
   snd (check_response (JDict [(ascii ''homeworks'', JInt 5)])) =
     Inl (Exn EmptyResponseFromAPI txt_no_homeworks_key None) \<and>
   cls (Exn EmptyResponseFromAPI txt_no_homeworks_key None) \<noteq> TypeError"
  by (simp add: check_response_def ascii_def)

subsection \<open>C8: the formatter of a homework\<close>

text \<open>
  Claim C8, as the code has it. On a mapping without \<open>homework_name\<close>,
  \<open>parse_status\<close> raises \<open>KeyError\<close>. On a mapping with \<open>homework_name\<close> whose
  \<open>status\<close> is absent, or is a hashable value other than the three known keys, it raises
  \<open>ValueError\<close>; when the \<open>status\<close> is a list or a mapping, the membership test of
  line 99 itself raises \<open>TypeError\<close>. For a name that is a string and each of the three
  known statuses it returns the text of line 101, the name, a closing quote, a full stop, a
  space and the verdict of that status.
\<close>

theorem parse_status_cases:
  "(map_of d (ascii ''homework_name'') = None \<longrightarrow>
      snd (parse_status rt (JDict d)) = Inl (Exn KeyError txt_no_homework_name None)) \<and>
   (map_of d (ascii ''homework_name'') = Some n \<and>
    st = (case map_of d (ascii ''status'') of Some v \<Rightarrow> v | None \<Rightarrow> JNull) \<and> hashable st \<and>
    st \<noteq> JStr (ascii ''approved'') \<and> st \<noteq> JStr (ascii ''reviewing'') \<and>
    st \<noteq> JStr (ascii ''rejected'') \<longrightarrow>
      snd (parse_status rt (JDict d)) =
        Inl (Exn ValueError (txt_unknown_status @ str_json rt st) None)) \<and>
   (map_of d (ascii ''homework_name'') = Some n \<and>
    st = (case map_of d (ascii ''status'') of Some v \<Rightarrow> v | None \<Rightarrow> JNull) \<and> \<not> hashable st \<longrightarrow>
      snd (parse_status rt (JDict d)) =
        Inl (Exn TypeError (ascii ''unhashable type: '' @ quoted (ascii (type_name st))) None)) \<and>
   (map_of d (ascii ''homework_name'') = Some (JStr name) \<and>
    map_of d (ascii ''status'') = Some (JStr (ascii ''approved'')) \<longrightarrow>
      snd (parse_status rt (JDict d)) =
        Inr (txt_status_changed @ name @ [34] @ ascii ''. '' @ verdict_approved)) \<and>
   (map_of d (ascii ''homework_name'') = Some (JStr name) \<and>
    map_of d (ascii ''status'') = Some (JStr (ascii ''reviewing'')) \<longrightarrow>
      snd (parse_status rt (JDict d)) =
        Inr (txt_status_changed @ name @ [34] @ ascii ''. '' @ verdict_reviewing)) \<and>
   (map_of d (ascii ''homework_name'') = Some (JStr name) \<and>
    map_of d (ascii ''status'') = Some (JStr (ascii ''rejected'')) \<longrightarrow>
      snd (parse_status rt (JDict d)) =
        Inr (txt_status_changed @ name @ [34] @ ascii ''. '' @ verdict_rejected))"
proof -
  have unknown: "(case st of JStr k \<Rightarrow> map_of HOMEWORK_VERDICTS k | _ \<Rightarrow> None) = None"
    if "st \<noteq> JStr (ascii ''approved'')" "st \<noteq> JStr (ascii ''reviewing'')"
       "st \<noteq> JStr (ascii ''rejected'')" for st
    using that by (cases st) (simp_all add: verdict_lookup)
  show ?thesis
    by (auto simp: parse_status_def Let_def verdict_lookup ascii_keys_distinct unknown)
qed

text \<open>
  The cases on concrete homeworks; an absent status is printed as \<open>None\<close>.
\<close>

theorem parse_status_cases_witness:
  "snd (parse_status rt_ex (JDict [(ascii ''status'', JStr (ascii ''approved''))])) =
     Inl (Exn KeyError txt_no_homework_name None) \<and>
   snd (parse_status rt_ex (homework_ex ''done'')) =
     Inl (Exn ValueError (txt_unknown_status @ ascii ''done'') None) \<and>
   snd (parse_status rt_ex (JDict [(ascii ''homework_name'', JStr (ascii ''hw1''))])) =
     Inl (Exn ValueError (txt_unknown_status @ ascii ''None'') None) \<and>
   snd (parse_status rt_ex (homework_ex ''approved'')) =
     Inr (txt_status_changed @ ascii ''hw1'' @ [34] @ ascii ''. '' @ verdict_approved) \<and>
   snd (parse_status rt_ex (homework_ex ''reviewing'')) =
     Inr (txt_status_changed @ ascii ''hw1'' @ [34] @ ascii ''. '' @ verdict_reviewing) \<and>
   snd (parse_status rt_ex (homework_ex ''rejected'')) =
     Inr (txt_status_changed @ ascii ''hw1'' @ [34] @ ascii ''. '' @ verdict_rejected)"
proof -
  have 1: "snd (parse_status rt_ex (JDict [(ascii ''status'', JStr (ascii ''approved''))])) =
     Inl (Exn KeyError txt_no_homework_name None)"
    using conjunct1 [OF parse_status_cases [where d = "[(ascii ''status'', JStr (ascii ''approved''))]"]]
    by (simp add: ascii_def)
  have 2: "snd (parse_status rt_ex (homework_ex ''done'')) =
     Inl (Exn ValueError (txt_unknown_status @ str_json rt_ex (JStr (ascii ''done''))) None)"
    using conjunct1 [OF conjunct2 [OF parse_status_cases
        [where d = "[(ascii ''homework_name'', JStr (ascii ''hw1'')), (ascii ''status'', JStr (ascii ''done''))]"
           and n = "JStr (ascii ''hw1'')" and st = "JStr (ascii ''done'')"]]]
    by (simp add: ascii_def homework_ex_def)
  have 3: "snd (parse_status rt_ex (JDict [(ascii ''homework_name'', JStr (ascii ''hw1''))])) =
     Inl (Exn ValueError (txt_unknown_status @ str_json rt_ex JNull) None)"
    using conjunct1 [OF conjunct2 [OF parse_status_cases
        [where d = "[(ascii ''homework_name'', JStr (ascii ''hw1''))]"
           and n = "JStr (ascii ''hw1'')" and st = JNull]]]
    by (simp add: ascii_def)
  have 4: "snd (parse_status rt_ex (homework_ex ''approved'')) =
     Inr (txt_status_changed @ ascii ''hw1'' @ [34] @ ascii ''. '' @ verdict_approved)"
    using conjunct1 [OF conjunct2 [OF conjunct2 [OF conjunct2 [OF parse_status_cases
        [where d = "[(ascii ''homework_name'', JStr (ascii ''hw1'')), (ascii ''status'', JStr (ascii ''approved''))]"
           and name = "ascii ''hw1''"]]]]]
    by (simp add: ascii_def homework_ex_def)
  have 5: "snd (parse_status rt_ex (homework_ex ''reviewing'')) =
     Inr (txt_status_changed @ ascii ''hw1'' @ [34] @ ascii ''. '' @ verdict_reviewing)"
    using conjunct1 [OF conjunct2 [OF conjunct2 [OF conjunct2 [OF conjunct2 [OF parse_status_cases
        [where d = "[(ascii ''homework_name'', JStr (ascii ''hw1'')), (ascii ''status'', JStr (ascii ''reviewing''))]"
           and name = "ascii ''hw1''"]]]]]]
    by (simp add: ascii_def homework_ex_def)
  have 6: "snd (parse_status rt_ex (homework_ex ''rejected'')) =
     Inr (txt_status_changed @ ascii ''hw1'' @ [34] @ ascii ''. '' @ verdict_rejected)"
    using conjunct2 [OF conjunct2 [OF conjunct2 [OF conjunct2 [OF conjunct2 [OF parse_status_cases
        [where d = "[(ascii ''homework_name'', JStr (ascii ''hw1'')), (ascii ''status'', JStr (ascii ''rejected''))]"
           and name = "ascii ''hw1''"]]]]]]
    by (simp add: ascii_def homework_ex_def)
  show ?thesis
    using 1 2 3 4 5 6 by simp
qed

text \<open>
  Claim C8 as stated says that every unknown status raises a value error. Without
  \<open>homework_name\<close> the error is \<open>KeyError\<close> whatever the status is, and a status that
  is a list raises \<open>TypeError\<close>.
\<close>

theorem parse_status_counterexample:
  "snd (parse_status rt_ex (JDict [(ascii ''status'', JStr (ascii ''done''))])) =
     Inl (Exn KeyError txt_no_homework_name None) \<and>
   snd (parse_status rt_ex
     (JDict [(ascii ''homework_name'', JStr (ascii ''hw1'')), (ascii ''status'', JList [])])) =
     Inl (Exn TypeError (ascii ''unhashable type: '' @ [39] @ ascii ''list'' @ [39]) None) \<and>
   KeyError \<noteq> ValueError \<and> TypeError \<noteq> ValueError"
  by (simp add: parse_status_def Let_def quoted_def ascii_def)

subsection \<open>C9: when the process stops\<close>

text \<open>
  Claim C9, as the code has it. When one of the three credentials is absent or empty,
  \<open>main\<close> logs the token check, logs the error at level CRITICAL and returns. \<open>main\<close>
  returns exactly when a credential is absent or empty or the construction of the bot
  raises, which the same handler of line 165 catches; in both cases it has made no
  request and sent nothing, and its last act is the critical log. No pass of the loop
  ends the process.
\<close>

theorem main_stops:
  "(\<not> (truthy_env (PRACTICUM_TOKEN cfg) \<and> truthy_env (TELEGRAM_TOKEN cfg) \<and>
        truthy_env (TELEGRAM_CHAT_ID cfg)) \<longrightarrow>
      main rt cfg nfs su ps =
        Stopped [Log INFO txt_tokens_begin, Log CRITICAL (txt_critical @ txt_token_missing)]) \<and>
   ((\<exists>evs. main rt cfg nfs su ps = Stopped evs) \<longleftrightarrow>
      (\<not> (truthy_env (PRACTICUM_TOKEN cfg) \<and> truthy_env (TELEGRAM_TOKEN cfg) \<and>
           truthy_env (TELEGRAM_CHAT_ID cfg)) \<or> bot_init su \<noteq> None)) \<and>
   (main rt cfg nfs su ps = Stopped evs \<longrightarrow>
      requests_made evs = [] \<and> sent_texts evs = [] \<and> (\<exists>t. last evs = Log CRITICAL t))"
  by (auto simp: main_def check_tokens_def critical_def Let_def
      split: prod.splits option.splits)

text \<open>
  An empty chat identifier, and all three credentials absent.
\<close>

theorem main_stops_witness:
  "main rt_ex (cfg_ex\<lparr>TELEGRAM_CHAT_ID := Some []\<rparr>) nfs_ex su_ex
       [poll_ex 200 (ascii ''OK'') (body_ex [] 1700000500)] =
     Stopped [Log INFO txt_tokens_begin, Log CRITICAL (txt_critical @ txt_token_missing)] \<and>
   main rt_ex (cfg_ex\<lparr>PRACTICUM_TOKEN := None, TELEGRAM_TOKEN := None, TELEGRAM_CHAT_ID := None\<rparr>)
       nfs_ex su_ex [poll_ex 200 (ascii ''OK'') (body_ex [] 1700000500)] =
     Stopped [Log INFO txt_tokens_begin, Log CRITICAL (txt_critical @ txt_token_missing)]"
  using conjunct1 [OF main_stops [where cfg = "cfg_ex\<lparr>TELEGRAM_CHAT_ID := Some []\<rparr>"
        and rt = rt_ex and nfs = nfs_ex and su = su_ex
        and ps = "[poll_ex 200 (ascii ''OK'') (body_ex [] 1700000500)]"]]
    conjunct1 [OF main_stops [where cfg = "cfg_ex\<lparr>PRACTICUM_TOKEN := None, TELEGRAM_TOKEN := None, TELEGRAM_CHAT_ID := None\<rparr>"
        and rt = rt_ex and nfs = nfs_ex and su = su_ex
        and ps = "[poll_ex 200 (ascii ''OK'') (body_ex [] 1700000500)]"]]
  by (simp add: cfg_ex_def truthy_env_def)

text \<open>
  Claim C9 as stated says that a missing credential is the only way for the process to
  stop. With the three credentials present, a token that the library rejects when the bot
  is constructed stops the process on the same critical path.
\<close>

theorem main_stops_counterexample:
  "truthy_env (PRACTICUM_TOKEN cfg_ex) \<and> truthy_env (TELEGRAM_TOKEN cfg_ex) \<and>
   truthy_env (TELEGRAM_CHAT_ID cfg_ex) \<and>
   main rt_ex cfg_ex nfs_ex
       \<lparr>bot_init = Some (Exn InvalidToken (ascii ''Invalid token'') None), start_delivery = None\<rparr>
       [poll_ex 200 (ascii ''OK'') (body_ex [] 1700000500)] =
     Stopped [Log INFO txt_tokens_begin, Log CRITICAL (txt_critical @ ascii ''Invalid token'')]"
  by (simp add: main_def check_tokens_def critical_def cfg_ex_def truthy_env_def ascii_def)

subsection \<open>C10: the start message\<close>

text \<open>
  Claim C10. When the credentials are present and the bot is constructed, \<open>main\<close> sends
  the start message once, before any request, logs it, and enters the loop with the cursor
  0 and the empty string as the previous text. The loop never sees the start message:
  whatever the first pass renders is sent unless it is empty.
\<close>

theorem startup_notification:
  assumes "truthy_env (PRACTICUM_TOKEN cfg) \<and> truthy_env (TELEGRAM_TOKEN cfg) \<and>
           truthy_env (TELEGRAM_CHAT_ID cfg)"
      and "bot_init su = None"
  shows "main rt cfg nfs su ps =
           (case loop rt cfg nfs ps \<lparr>current_timestamp = JInt 0, prev_msg = []\<rparr> of
              (s, evs) \<Rightarrow>
                Polling s
                  ([Log INFO txt_tokens_begin] @
                   send_message cfg (start_delivery su) start_message @
                   [Log INFO start_message] @ evs)) \<and>
         main rt cfg nfs su [] =
           Polling \<lparr>current_timestamp = JInt 0, prev_msg = []\<rparr>
             ([Log INFO txt_tokens_begin] @
              send_message cfg (start_delivery su) start_message @ [Log INFO start_message]) \<and>
         sent_texts ([Log INFO txt_tokens_begin] @
              send_message cfg (start_delivery su) start_message @ [Log INFO start_message]) =
           [start_message] \<and>
         requests_made ([Log INFO txt_tokens_begin] @
              send_message cfg (start_delivery su) start_message @ [Log INFO start_message]) = [] \<and>
         (poll_message rt cfg p \<lparr>current_timestamp = JInt 0, prev_msg = []\<rparr> = (s1, ev, Inr m) \<longrightarrow>
            sent_texts (snd (iteration rt cfg nfs p \<lparr>current_timestamp = JInt 0, prev_msg = []\<rparr>)) =
              (if m = [] then [] else [m]))"
proof -
  have m: "\<And>qs. main rt cfg nfs su qs =
           (case loop rt cfg nfs qs \<lparr>current_timestamp = JInt 0, prev_msg = []\<rparr> of
              (s, evs) \<Rightarrow>
                Polling s
                  ([Log INFO txt_tokens_begin] @
                   send_message cfg (start_delivery su) start_message @
                   [Log INFO start_message] @ evs))"
    using assms by (simp add: main_def check_tokens_def Let_def split: prod.splits)
  have first: "sent_texts (snd (iteration rt cfg nfs p \<lparr>current_timestamp = JInt 0, prev_msg = []\<rparr>)) =
              (if m = [] then [] else [m])"
    if pm: "poll_message rt cfg p \<lparr>current_timestamp = JInt 0, prev_msg = []\<rparr> = (s1, ev, Inr m)"
  proof -
    have "sent_texts ev = []"
      using poll_message_sent [of rt cfg p "\<lparr>current_timestamp = JInt 0, prev_msg = []\<rparr>"] pm
      by simp
    then show ?thesis
      by (auto simp: iteration_message [OF pm] sent_texts_append sent_texts_send_message)
  qed
  show ?thesis
    using first by (simp add: m [of ps] m [of "[]"] sent_texts_append sent_texts_send_message
        requests_made_append requests_made_send_message)
qed

text \<open>
  The start of the process with the sample credentials, event by event.
\<close>

theorem startup_notification_witness:
  "main rt_ex cfg_ex nfs_ex su_ex [] =
     Polling \<lparr>current_timestamp = JInt 0, prev_msg = []\<rparr>
       [Log INFO txt_tokens_begin, Log INFO txt_send_begin,
        Send (Some (ascii ''4242'')) start_message,
        Log DEBUG txt_send_debug, Log INFO txt_send_done, Log INFO start_message]"
proof -
  have a: "truthy_env (PRACTICUM_TOKEN cfg_ex) \<and> truthy_env (TELEGRAM_TOKEN cfg_ex) \<and>
           truthy_env (TELEGRAM_CHAT_ID cfg_ex)"
    by (simp add: cfg_ex_def truthy_env_def ascii_def)
  have b: "bot_init su_ex = None" by (simp add: su_ex_def)
  show ?thesis
    using conjunct1 [OF conjunct2 [OF startup_notification [OF a b, where rt = rt_ex and nfs = nfs_ex]]]
    by (simp add: send_message_def su_ex_def cfg_ex_def)
qed

end
